theory Spec2Isabelle
  imports Main
begin

section \<open>The chat relay handler of \<open>src/api/chat.js\<close>\<close>

text \<open>
  The handler is one asynchronous JavaScript function. It reads the request and the process
  environment, makes up to 32 outbound calls with \<open>fetch\<close> (one create, at most 30
  polls, one message list) and answers with \<open>res.status(s).json(b)\<close>.

  The embedding makes every effect explicit:
  \<^item> the values the code inspects are JSON values, type \<open>jsval\<close>;
  \<^item> an exception is the control outcome \<open>Throw\<close>, a \<open>return res...\<close> is the outcome
    \<open>Return\<close>, falling through to the next statement is \<open>Next\<close>;
  \<^item> the remote service is a parameter, the record \<open>remote\<close>, that fixes what each
    \<open>fetch\<close> gives back;
  \<^item> the waits, the outbound calls and the error log are recorded, in order, in a list of
    events that every step returns beside its outcome.
\<close>

subsection \<open>JavaScript values\<close>

text \<open>
  What \<open>JSON.parse\<close> can produce, and \<open>undefined\<close> for a property that is not there.
  The code does three things with a number: it compares it with \<open>0\<close>, tests it for
  truthiness and prints it. A number whose value is an integer is \<open>JNum\<close> of that integer
  (the response-level \<open>code\<close> of the remote service is one); an integer that no double
  holds stands for the double that \<open>JSON.parse\<close> reads it as, the nearest one, and from
  \<open>2 ^ 1024\<close> on for \<open>Infinity\<close>. A number with a fraction is never \<open>0\<close> and is
  always truthy: it is \<open>JFrac\<close> of the string that JavaScript prints for it.
  An object is the association list of its own properties.
\<close>

datatype jsval =
    JUndefined
  | JNull
  | JBool bool
  | JNum int
  | JFrac string
  | JStr string
  | JArr "jsval list"
  | JObj "(string \<times> jsval) list"

datatype exn = TypeError | FetchFailed | JsonParseError

record http_result =
  http_status :: nat
  http_json :: jsval

text \<open>The three ways a statement can end.\<close>

datatype 'a ctl = Next 'a | Return http_result | Throw exn

fun bind :: "'a ctl \<Rightarrow> ('a \<Rightarrow> 'b ctl) \<Rightarrow> 'b ctl" where
  "bind (Next x) f = f x"
| "bind (Return r) f = Return r"
| "bind (Throw e) f = Throw e"

text \<open>\<open>!v\<close> is \<open>\<not> js_truthy v\<close>; \<open>a || b\<close> is \<open>js_or a b\<close>.\<close>

fun js_truthy :: "jsval \<Rightarrow> bool" where
  "js_truthy JUndefined = False"
| "js_truthy JNull = False"
| "js_truthy (JBool b) = b"
| "js_truthy (JNum n) = (n \<noteq> 0)"
| "js_truthy (JFrac s) = True"
| "js_truthy (JStr s) = (s \<noteq> [])"
| "js_truthy (JArr xs) = True"
| "js_truthy (JObj kvs) = True"

definition js_or :: "jsval \<Rightarrow> jsval \<Rightarrow> jsval" where
  "js_or a b = (if js_truthy a then a else b)"

text \<open>
  \<open>v.k\<close> for the property names the handler reads (\<open>message\<close>, \<open>code\<close>, \<open>msg\<close>, \<open>data\<close>,
  \<open>id\<close>, \<open>conversation_id\<close>, \<open>status\<close>, \<open>role\<close>, \<open>type\<close>, \<open>content\<close>): none of them is
  inherited from a prototype, so the value is the own property of an object and \<open>undefined\<close>
  on anything else. Reading a property of \<open>null\<close> or \<open>undefined\<close> throws a TypeError.
\<close>

fun js_prop :: "jsval \<Rightarrow> string \<Rightarrow> jsval" where
  "js_prop (JObj kvs) k = (case map_of kvs k of Some v \<Rightarrow> v | None \<Rightarrow> JUndefined)"
| "js_prop v k = JUndefined"

definition nullish :: "jsval \<Rightarrow> bool" where
  "nullish v = (v = JUndefined \<or> v = JNull)"

definition get_prop :: "jsval \<Rightarrow> string \<Rightarrow> jsval ctl" where
  "get_prop v k = (if nullish v then Throw TypeError else Next (js_prop v k))"

text \<open>
  Printing a number, as \<open>Number.prototype.toString\<close> does it for a value that is an
  integer. The digits are the fewest that still read back as the same double, at most 17.
  Up to \<open>2 ^ 53\<close> every integer is a double and these are all its digits. Up to 21 digits
  the number is printed in full, its digits followed by zeros; beyond, in the form
  \<open>d.ddde+n\<close>.
\<close>

function show_digits :: "int \<Rightarrow> string" where
  "show_digits n =
     (if n < 10 then [''0123456789'' ! nat n]
      else show_digits (n div 10) @ [''0123456789'' ! nat (n mod 10)])"
  by pat_completeness auto
termination
  by (relation "measure nat") auto

function bit_length :: "int \<Rightarrow> nat" where
  "bit_length v = (if v \<le> 0 then 0 else Suc (bit_length (v div 2)))"
  by pat_completeness auto
termination
  by (relation "measure nat") auto

text \<open>The double nearest to a natural number, ties going to the even mantissa of 53 bits.\<close>

definition round_double :: "int \<Rightarrow> int" where
  "round_double v =
     (let b = bit_length v in
      if b \<le> 53 then v
      else
        let sh = b - 53; q = v div 2 ^ sh; r = v mod 2 ^ sh; h = 2 ^ (sh - 1)
        in (if r > h \<or> (r = h \<and> odd q) then q + 1 else q) * 2 ^ sh)"

text \<open>
  The double \<open>x\<close> has \<open>D\<close> digits. Of the two numbers of \<open>k\<close> digits followed by zeros
  that enclose \<open>x\<close>, the one that reads back as \<open>x\<close>; if both do, the nearer one, and the
  one with the even last digit when they are equally near.
\<close>

definition pick_digits :: "int \<Rightarrow> nat \<Rightarrow> nat \<Rightarrow> int option" where
  "pick_digits x D k =
     (let p = 10 ^ (D - k); lo = (x div p) * p; hi = lo + p;
          okl = (round_double lo = x); okh = (round_double hi = x)
      in if okl \<and> okh then
           (if x - lo < hi - x then Some lo
            else if hi - x < x - lo then Some hi
            else if even (lo div p) then Some lo else Some hi)
         else if okl then Some lo
         else if okh then Some hi
         else None)"

fun shortest_digits :: "int \<Rightarrow> nat \<Rightarrow> nat list \<Rightarrow> int" where
  "shortest_digits x D [] = x"
| "shortest_digits x D (k # ks) =
     (case pick_digits x D k of Some v \<Rightarrow> v | None \<Rightarrow> shortest_digits x D ks)"

definition show_magnitude :: "int \<Rightarrow> string" where
  "show_magnitude n =
     (let x = round_double n in
      if x \<ge> 2 ^ 1024 then ''Infinity''
      else if x \<le> 2 ^ 53 then show_digits x
      else
        let D = length (show_digits x);
            s = show_digits (shortest_digits x D [1 ..< Suc (min 17 D)]);
            sig = rev (dropWhile (\<lambda>c. c = CHR ''0'') (rev s))
        in if length s \<le> 21 then s
           else if length sig = 1 then sig @ ''e+'' @ show_digits (int (length s) - 1)
           else hd sig # ''.'' @ tl sig @ ''e+'' @ show_digits (int (length s) - 1))"

definition show_number :: "int \<Rightarrow> string" where
  "show_number n = (if n < 0 then ''-'' @ show_magnitude (- n) else show_magnitude n)"

text \<open>
  String conversion, as a template literal \<open>`${v}`\<close> does it. An array is joined with
  commas, \<open>null\<close> and \<open>undefined\<close> elements printing as nothing. A parsed object prints as
  \<open>[object Object]\<close>, unless it has an own property \<open>toString\<close>: that one is no function, and
  the conversion throws a TypeError.
\<close>

fun to_string :: "jsval \<Rightarrow> string ctl"
  and join_elems :: "jsval list \<Rightarrow> string ctl" where
  "to_string JUndefined = Next ''undefined''"
| "to_string JNull = Next ''null''"
| "to_string (JBool b) = Next (if b then ''true'' else ''false'')"
| "to_string (JNum n) = Next (show_number n)"
| "to_string (JFrac s) = Next s"
| "to_string (JStr s) = Next s"
| "to_string (JArr xs) = join_elems xs"
| "to_string (JObj kvs) =
     (if map_of kvs ''toString'' \<noteq> None then Throw TypeError else Next ''[object Object]'')"
| "join_elems [] = Next []"
| "join_elems (x # xs) =
     bind (if nullish x then Next [] else to_string x) (\<lambda>s.
       if xs = [] then Next s
       else bind (join_elems xs) (\<lambda>r. Next (s @ '','' @ r)))"

subsection \<open>The request, the environment and the remote service\<close>

text \<open>\<open>req.method\<close> and \<open>req.body\<close>.\<close>

record request =
  req_method :: string
  body :: jsval

text \<open>\<open>process.env\<close>: a variable is a string, or is not set.\<close>

record env =
  COZE_API_TOKEN :: "string option"
  COZE_BOT_ID :: "string option"

fun env_truthy :: "string option \<Rightarrow> bool" where
  "env_truthy None = False"
| "env_truthy (Some s) = (s \<noteq> [])"

text \<open>
  What \<open>await fetch(...)\<close> gives: the promise is rejected, or there is a response with its
  HTTP transport status and its body, which \<open>.json()\<close> parses (\<open>None\<close>: the body is no JSON
  and \<open>.json()\<close> is rejected).
\<close>

datatype response = Response (resp_status: nat) (resp_json: "jsval option")

datatype fetch_result = Rejected | Fetched response

text \<open>
  The remote service and the clock. \<open>poll_resp W k\<close> answers the retrieve call number \<open>k\<close>,
  counted from 0.
\<close>

record remote =
  now :: int
  create_resp :: fetch_result
  poll_resp :: "nat \<Rightarrow> fetch_result"
  list_resp :: fetch_result

datatype op = CreateChat | RetrieveChat | ListMessages

text \<open>
  An event is a wait of so many milliseconds, an outbound call (operation, URL,
  authorization header, request body, and what came back) or a line of the error log.
\<close>

datatype event =
    Sleep nat
  | Fetch op string string "jsval option" fetch_result
  | ConsoleError exn

fun is_call :: "op \<Rightarrow> event \<Rightarrow> bool" where
  "is_call k (Fetch k' u a b r) = (k' = k)"
| "is_call k e = False"

fun is_fetch :: "event \<Rightarrow> bool" where
  "is_fetch (Fetch k u a b r) = True"
| "is_fetch e = False"

definition calls :: "op \<Rightarrow> event list \<Rightarrow> nat" where
  "calls k tr = length (filter (is_call k) tr)"

definition outbound :: "event list \<Rightarrow> nat" where
  "outbound tr = length (filter is_fetch tr)"

text \<open>\<open>await resp.json()\<close> on the result of \<open>await fetch(...)\<close>.\<close>

fun await_json :: "fetch_result \<Rightarrow> jsval ctl" where
  "await_json Rejected = Throw FetchFailed"
| "await_json (Fetched (Response s None)) = Throw JsonParseError"
| "await_json (Fetched (Response s (Some d))) = Next d"

text \<open>\<open>res.status(s).json({ error: e })\<close> and \<open>res.status(s).json({ reply })\<close>.\<close>

definition respond :: "nat \<Rightarrow> jsval \<Rightarrow> http_result" where
  "respond s b = \<lparr>http_status = s, http_json = b\<rparr>"

definition error_body :: "jsval \<Rightarrow> jsval" where
  "error_body e = JObj [(''error'', e)]"

definition reply_body :: "jsval \<Rightarrow> jsval" where
  "reply_body r = JObj [(''reply'', r)]"

subsection \<open>Step 1: create a chat session (lines 26 to 56)\<close>

definition create_request_body :: "string \<Rightarrow> int \<Rightarrow> jsval \<Rightarrow> jsval" where
  "create_request_body botId t message =
     JObj [(''bot_id'', JStr botId),
           (''user_id'', JStr (''vercel_'' @ show_number t)),
           (''stream'', JBool False),
           (''auto_save_history'', JBool True),
           (''additional_messages'',
              JArr [JObj [(''role'', JStr ''user''),
                          (''content'', message),
                          (''content_type'', JStr ''text'')]])]"

text \<open>Lines 47 to 56: from the parsed create response to \<open>chatId\<close>, \<open>conversationId\<close>, \<open>status\<close>.\<close>

definition create_result :: "jsval \<Rightarrow> (jsval \<times> jsval \<times> jsval) ctl" where
  "create_result createData =
     bind (get_prop createData ''code'') (\<lambda>c.
       if c \<noteq> JNum 0 then
         bind (get_prop createData ''msg'') (\<lambda>m.
           Return (respond 500 (error_body (js_or m (JStr ''Failed to start Coze chat'')))))
       else
         bind (get_prop createData ''data'') (\<lambda>d.
         bind (get_prop d ''id'') (\<lambda>chatId.
         bind (get_prop d ''conversation_id'') (\<lambda>conversationId.
         bind (get_prop d ''status'') (\<lambda>st.
           Next (chatId, conversationId, st))))))"

definition create_chat ::
  "string \<Rightarrow> string \<Rightarrow> jsval \<Rightarrow> remote \<Rightarrow> (jsval \<times> jsval \<times> jsval) ctl \<times> event list" where
  "create_chat apiToken botId message W =
     (bind (await_json (create_resp W)) create_result,
      [Fetch CreateChat ''https://api.coze.com/v3/chat'' (''Bearer '' @ apiToken)
         (Some (create_request_body botId (now W) message)) (create_resp W)])"

subsection \<open>Step 2: poll for completion (lines 56 to 72)\<close>

definition id_query :: "jsval \<Rightarrow> jsval \<Rightarrow> string ctl" where
  "id_query chatId conversationId =
     bind (to_string chatId) (\<lambda>a.
     bind (to_string conversationId) (\<lambda>b.
       Next (''?chat_id='' @ a @ ''&conversation_id='' @ b)))"

text \<open>The loop's variables.\<close>

record loop_state =
  status :: jsval
  attempts :: nat

text \<open>
  Lines 66 to 71: from the parsed poll response to the loop's variables. A remote error
  returns before \<open>attempts++\<close>.
\<close>

definition poll_result :: "loop_state \<Rightarrow> jsval \<Rightarrow> loop_state ctl" where
  "poll_result st pollData =
     bind (get_prop pollData ''code'') (\<lambda>c.
       if c \<noteq> JNum 0 then
         bind (get_prop pollData ''msg'') (\<lambda>m.
           Return (respond 500 (error_body (js_or m (JStr ''Error while polling Coze chat'')))))
       else
         bind (get_prop pollData ''data'') (\<lambda>d.
         bind (get_prop d ''status'') (\<lambda>s.
           Next (st\<lparr>status := s, attempts := attempts st + 1\<rparr>))))"

text \<open>
  One run of the loop body (lines 59 to 71), \<open>k\<close> retrieve calls having been made before.
  The result is how the body ends, the variables at that moment, and the events.
\<close>

definition poll_body ::
  "remote \<Rightarrow> string \<Rightarrow> jsval \<Rightarrow> jsval \<Rightarrow> nat \<Rightarrow> loop_state \<Rightarrow> unit ctl \<times> loop_state \<times> event list" where
  "poll_body W apiToken chatId conversationId k st =
     (case id_query chatId conversationId of
        Throw e \<Rightarrow> (Throw e, st, [Sleep 1000])
      | Return r \<Rightarrow> (Return r, st, [Sleep 1000])
      | Next q \<Rightarrow>
          (let ev = [Sleep 1000,
                     Fetch RetrieveChat (''https://api.coze.com/v3/chat/retrieve'' @ q)
                       (''Bearer '' @ apiToken) None (poll_resp W k)]
           in case bind (await_json (poll_resp W k)) (poll_result st) of
                Throw e \<Rightarrow> (Throw e, st, ev)
              | Return r \<Rightarrow> (Return r, st, ev)
              | Next st' \<Rightarrow> (Next (), st', ev)))"

function poll_loop ::
  "remote \<Rightarrow> string \<Rightarrow> jsval \<Rightarrow> jsval \<Rightarrow> nat \<Rightarrow> loop_state \<Rightarrow> unit ctl \<times> loop_state \<times> event list" where
  "poll_loop W apiToken chatId conversationId k st =
     (if status st = JStr ''in_progress'' \<and> attempts st < 30 then
        (case poll_body W apiToken chatId conversationId k st of
           (Next u, st', ev) \<Rightarrow>
             (case poll_loop W apiToken chatId conversationId (Suc k) st' of
                (c, st'', ev') \<Rightarrow> (c, st'', ev @ ev'))
         | (Return r, st', ev) \<Rightarrow> (Return r, st', ev)
         | (Throw e, st', ev) \<Rightarrow> (Throw e, st', ev))
      else (Next (), st, []))"
  by pat_completeness auto
termination
proof (relation "measure (\<lambda>(W, tok, c, v, k, st). 30 - attempts st)", goal_cases)
  case 1
  show ?case by simp
next
  case (2 W apiToken chatId conversationId k st x y u st' ev)
  from 2(2-4) have body: "poll_body W apiToken chatId conversationId k st = (Next u, st', ev)"
    by simp
  have "attempts st' = Suc (attempts st)"
  proof (cases "id_query chatId conversationId")
    case (Next q)
    show ?thesis
    proof (cases "await_json (poll_resp W k)")
      case d: (Next pollData)
      with body Next show ?thesis
        by (auto simp: poll_body_def poll_result_def get_prop_def split: if_splits)
    qed (use body Next in \<open>simp_all add: poll_body_def\<close>)
  qed (use body in \<open>simp_all add: poll_body_def\<close>)
  with 2(1) show ?case by auto
qed

declare poll_loop.simps [simp del]

subsection \<open>Step 3: retrieve the messages (lines 74 to 95)\<close>

text \<open>The callback of \<open>filter\<close>: \<open>m.role === 'assistant' && m.type === 'answer'\<close>.\<close>

definition is_bot_message :: "jsval \<Rightarrow> bool ctl" where
  "is_bot_message m =
     bind (get_prop m ''role'') (\<lambda>r.
       if r = JStr ''assistant'' then
         bind (get_prop m ''type'') (\<lambda>t. Next (t = JStr ''answer''))
       else Next False)"

fun filter_js :: "(jsval \<Rightarrow> bool ctl) \<Rightarrow> jsval list \<Rightarrow> jsval list ctl" where
  "filter_js p [] = Next []"
| "filter_js p (m # ms) =
     bind (p m) (\<lambda>b.
     bind (filter_js p ms) (\<lambda>r.
       Next (if b then m # r else r)))"

text \<open>\<open>v.filter(p)\<close>: only an array has the method.\<close>

fun call_filter :: "jsval \<Rightarrow> (jsval \<Rightarrow> bool ctl) \<Rightarrow> jsval list ctl" where
  "call_filter (JArr ms) p = filter_js p ms"
| "call_filter v p = Throw TypeError"

text \<open>Lines 85 to 95: from the parsed list response to the answer.\<close>

definition list_result :: "jsval \<Rightarrow> unit ctl" where
  "list_result msgData =
     bind (get_prop msgData ''code'') (\<lambda>c.
       if c \<noteq> JNum 0 then
         bind (get_prop msgData ''msg'') (\<lambda>m.
           Return (respond 500 (error_body (js_or m (JStr ''Failed to fetch chat messages'')))))
       else
         bind (get_prop msgData ''data'') (\<lambda>d.
         bind (call_filter d is_bot_message) (\<lambda>botMessages.
         bind (if length botMessages > 0
               then get_prop (botMessages ! (length botMessages - 1)) ''content''
               else Next (JStr '''')) (\<lambda>reply.
           Return (respond 200 (reply_body reply))))))"

text \<open>Lines 74 to 95: what follows the loop, with the loop's final \<open>status\<close>.\<close>

definition after_loop ::
  "remote \<Rightarrow> string \<Rightarrow> jsval \<Rightarrow> jsval \<Rightarrow> jsval \<Rightarrow> unit ctl \<times> event list" where
  "after_loop W apiToken chatId conversationId s =
     (if s \<noteq> JStr ''completed'' then
        (bind (to_string s) (\<lambda>t.
           Return (respond 500
             (error_body (JStr (''Chat did not complete (status: '' @ t @ '')''))))), [])
      else
        (case id_query chatId conversationId of
           Throw e \<Rightarrow> (Throw e, [])
         | Return r \<Rightarrow> (Return r, [])
         | Next q \<Rightarrow>
             (bind (await_json (list_resp W)) list_result,
              [Fetch ListMessages (''https://api.coze.com/v3/chat/message/list'' @ q)
                 (''Bearer '' @ apiToken) None (list_resp W)])))"

subsection \<open>The handler\<close>

text \<open>The body of the \<open>try\<close> block, lines 25 to 95.\<close>

definition try_block :: "string \<Rightarrow> string \<Rightarrow> jsval \<Rightarrow> remote \<Rightarrow> unit ctl \<times> event list" where
  "try_block apiToken botId message W =
     (case create_chat apiToken botId message W of
        (Throw e, ev) \<Rightarrow> (Throw e, ev)
      | (Return r, ev) \<Rightarrow> (Return r, ev)
      | (Next (chatId, conversationId, s), ev) \<Rightarrow>
          (case poll_loop W apiToken chatId conversationId 0 \<lparr>status = s, attempts = 0\<rparr> of
             (Throw e, st, ev2) \<Rightarrow> (Throw e, ev @ ev2)
           | (Return r, st, ev2) \<Rightarrow> (Return r, ev @ ev2)
           | (Next u, st, ev2) \<Rightarrow>
               (case after_loop W apiToken chatId conversationId (status st) of
                  (c, ev3) \<Rightarrow> (c, ev @ ev2 @ ev3))))"

text \<open>The \<open>catch\<close> clause, lines 96 to 99.\<close>

fun catch_block :: "unit ctl \<times> event list \<Rightarrow> unit ctl \<times> event list" where
  "catch_block (Throw err, ev) =
     (Return (respond 500 (error_body (JStr ''Internal server error''))), ev @ [ConsoleError err])"
| "catch_block (c, ev) = (c, ev)"

text \<open>
  The handler. Its result is the response it sends (\<open>Return\<close>) or the exception it lets
  escape (\<open>Throw\<close>), and the events. \<open>Next ()\<close> would be the end of the function with no
  response sent.
\<close>

definition handler :: "request \<Rightarrow> env \<Rightarrow> remote \<Rightarrow> unit ctl \<times> event list" where
  "handler req environ W =
     (if req_method req \<noteq> ''POST'' then
        (Return (respond 405 (error_body (JStr ''Method Not Allowed''))), [])
      else
        (case get_prop (js_or (body req) (JObj [])) ''message'' of
           Throw e \<Rightarrow> (Throw e, [])
         | Return r \<Rightarrow> (Return r, [])
         | Next message \<Rightarrow>
             if \<not> js_truthy message then
               (Return (respond 400 (error_body (JStr ''Missing \"message\" in request body''))), [])
             else if \<not> env_truthy (COZE_API_TOKEN environ) \<or> \<not> env_truthy (COZE_BOT_ID environ) then
               (Return (respond 500 (error_body (JStr
                  ''Coze API token or Bot ID not configured in environment variables.''))), [])
             else
               catch_block
                 (try_block (the (COZE_API_TOKEN environ)) (the (COZE_BOT_ID environ)) message W)))"

subsection \<open>Vocabulary for the properties\<close>

text \<open>The \<open>message\<close> that line 13 takes out of the request body.\<close>

definition message_of :: "request \<Rightarrow> jsval" where
  "message_of req = js_prop (js_or (body req) (JObj [])) ''message''"

text \<open>A request that passes lines 9 to 16, and an environment that passes lines 18 to 22.\<close>

definition valid_post :: "request \<Rightarrow> bool" where
  "valid_post req = (req_method req = ''POST'' \<and> js_truthy (message_of req))"

definition configured :: "env \<Rightarrow> bool" where
  "configured environ = (env_truthy (COZE_API_TOKEN environ) \<and> env_truthy (COZE_BOT_ID environ))"

text \<open>
  The create call succeeds: the response parses, passes the check of line 48 and gives the
  identifiers \<open>chatId\<close>, \<open>conversationId\<close> and the first status \<open>s\<close>.
\<close>

definition created :: "remote \<Rightarrow> jsval \<Rightarrow> jsval \<Rightarrow> jsval \<Rightarrow> bool" where
  "created W chatId conversationId s =
     (bind (await_json (create_resp W)) create_result = Next (chatId, conversationId, s))"

text \<open>A call's result is a parsed body with code 0 whose \<open>data.status\<close> is \<open>s\<close>.\<close>

fun reports :: "fetch_result \<Rightarrow> jsval \<Rightarrow> bool" where
  "reports (Fetched (Response h (Some d))) s =
     (js_prop d ''code'' = JNum 0 \<and> \<not> nullish (js_prop d ''data'') \<and>
      js_prop (js_prop d ''data'') ''status'' = s)"
| "reports r s = False"

text \<open>Both identifiers convert to strings, so the URLs of lines 61 and 80 can be built.\<close>

definition printable :: "jsval \<Rightarrow> jsval \<Rightarrow> bool" where
  "printable chatId conversationId =
     (case id_query chatId conversationId of Next q \<Rightarrow> True | Return r \<Rightarrow> False | Throw e \<Rightarrow> False)"

text \<open>The test of the \<open>filter\<close> callback on a value that is an object.\<close>

definition assistant_answer :: "jsval \<Rightarrow> bool" where
  "assistant_answer m = (js_prop m ''role'' = JStr ''assistant'' \<and> js_prop m ''type'' = JStr ''answer'')"

text \<open>The default error message of each outbound call (lines 49, 68 and 87).\<close>

fun default_error :: "op \<Rightarrow> string" where
  "default_error CreateChat = ''Failed to start Coze chat''"
| "default_error RetrieveChat = ''Error while polling Coze chat''"
| "default_error ListMessages = ''Failed to fetch chat messages''"

subsection \<open>Sample inputs\<close>

definition sample_env :: env where
  "sample_env = \<lparr>COZE_API_TOKEN = Some ''pat_token'', COZE_BOT_ID = Some ''bot42''\<rparr>"

definition sample_request :: request where
  "sample_request = \<lparr>req_method = ''POST'', body = JObj [(''message'', JStr ''hello'')]\<rparr>"

text \<open>A body of the create and retrieve operations, with code 0 and the given status.\<close>

definition chat_body :: "string \<Rightarrow> jsval" where
  "chat_body s =
     JObj [(''code'', JNum 0),
           (''data'', JObj [(''id'', JStr ''c1''), (''conversation_id'', JStr ''v1''),
                            (''status'', JStr s)])]"

definition failure_body :: jsval where
  "failure_body = JObj [(''code'', JNum 4100), (''msg'', JStr ''authentication is invalid'')]"

text \<open>Two answers of the assistant, \<open>A\<close> then \<open>B\<close>, around a message of the user.\<close>

definition messages_body :: jsval where
  "messages_body =
     JObj [(''code'', JNum 0),
           (''data'', JArr [
              JObj [(''role'', JStr ''assistant''), (''type'', JStr ''answer''), (''content'', JStr ''A'')],
              JObj [(''role'', JStr ''user''), (''type'', JStr ''question''), (''content'', JStr ''Q'')],
              JObj [(''role'', JStr ''assistant''), (''type'', JStr ''answer''), (''content'', JStr ''B'')]])]"

definition no_answer_body :: jsval where
  "no_answer_body =
     JObj [(''code'', JNum 0),
           (''data'', JArr [
              JObj [(''role'', JStr ''user''), (''type'', JStr ''question''), (''content'', JStr ''Q'')]])]"

text \<open>
  A remote service that answers every call with the HTTP status \<open>h\<close>: the create call
  has the body \<open>c\<close>, the retrieve call number \<open>k\<close> has the body \<open>polls k\<close>, and the
  message list is \<open>msgs\<close>.
\<close>

definition sample_remote :: "nat \<Rightarrow> jsval \<Rightarrow> (nat \<Rightarrow> jsval) \<Rightarrow> jsval \<Rightarrow> remote" where
  "sample_remote h c polls msgs =
     \<lparr>now = 1000,
      create_resp = Fetched (Response h (Some c)),
      poll_resp = (\<lambda>k. Fetched (Response h (Some (polls k)))),
      list_resp = Fetched (Response h (Some msgs))\<rparr>"

text \<open>The chat never leaves \<open>in_progress\<close>.\<close>

definition in_progress_remote :: remote where
  "in_progress_remote =
     sample_remote 200 (chat_body ''in_progress'') (\<lambda>k. chat_body ''in_progress'') messages_body"

text \<open>A request whose \<open>message\<close> is a number, and one whose \<open>message\<close> is the empty string.\<close>

definition number_request :: request where
  "number_request = \<lparr>req_method = ''POST'', body = JObj [(''message'', JNum 42)]\<rparr>"

definition empty_request :: request where
  "empty_request = \<lparr>req_method = ''POST'', body = JObj [(''message'', JStr '''')]\<rparr>"

text \<open>The chat is completed when it is created.\<close>

definition completed_remote :: remote where
  "completed_remote =
     sample_remote 200 (chat_body ''completed'') (\<lambda>k. chat_body ''completed'') messages_body"

text \<open>The chat has failed when it is created.\<close>

definition failed_remote :: remote where
  "failed_remote =
     sample_remote 200 (chat_body ''failed'') (\<lambda>k. chat_body ''failed'') messages_body"

text \<open>The chat is created with a status that is the number \<open>1e21\<close>.\<close>

definition number_status_body :: jsval where
  "number_status_body =
     JObj [(''code'', JNum 0),
           (''data'', JObj [(''id'', JStr ''c1''), (''conversation_id'', JStr ''v1''),
                            (''status'', JNum 1000000000000000000000)])]"

definition number_status_remote :: remote where
  "number_status_remote =
     sample_remote 200 number_status_body (\<lambda>k. chat_body ''completed'') messages_body"

text \<open>The retrieve calls report \<open>in_progress\<close>, \<open>in_progress\<close>, \<open>completed\<close>.\<close>

definition three_polls_remote :: remote where
  "three_polls_remote =
     sample_remote 200 (chat_body ''in_progress'')
       (\<lambda>k. chat_body (if k < 2 then ''in_progress'' else ''completed'')) messages_body"

text \<open>The first retrieve call is answered with a remote error.\<close>

definition poll_error_remote :: remote where
  "poll_error_remote =
     sample_remote 200 (chat_body ''in_progress'') (\<lambda>k. failure_body) messages_body"

text \<open>The chat is completed when it is created, and no message is an answer of the assistant.\<close>

definition no_answer_remote :: remote where
  "no_answer_remote =
     sample_remote 200 (chat_body ''completed'') (\<lambda>k. chat_body ''completed'') no_answer_body"

text \<open>Every response has the HTTP status 502 and a body with code 0.\<close>

definition bad_gateway_remote :: remote where
  "bad_gateway_remote =
     sample_remote 502 (chat_body ''completed'') (\<lambda>k. chat_body ''completed'') messages_body"

section \<open>Reasoning about the steps\<close>

lemma bind_eq_Next:
  "bind m f = Next y \<longleftrightarrow> (\<exists>x. m = Next x \<and> f x = Next y)"
  by (cases m) auto

lemma poll_result_attempts:
  "poll_result st d = Next st' \<Longrightarrow> attempts st' = Suc (attempts st)"
  by (auto simp: poll_result_def bind_eq_Next split: if_splits)

lemma poll_body_attempts:
  "poll_body W tok c v k st = (Next u, st', ev) \<Longrightarrow> attempts st' = Suc (attempts st)"
  unfolding poll_body_def Let_def
  by (auto split: ctl.splits simp: bind_eq_Next dest: poll_result_attempts)

lemma get_prop_Next [simp]: "\<not> nullish v \<Longrightarrow> get_prop v k = Next (js_prop v k)"
  by (simp add: get_prop_def)

lemma get_prop_Throw [simp]: "nullish v \<Longrightarrow> get_prop v k = Throw TypeError"
  by (simp add: get_prop_def)

lemma js_prop_nullish: "nullish v \<Longrightarrow> js_prop v k = JUndefined"
  by (auto simp: nullish_def)

lemma js_prop_eq_imp: "js_prop v k = x \<Longrightarrow> x \<noteq> JUndefined \<Longrightarrow> \<not> nullish v"
  by (auto simp: nullish_def)

lemma body_or_not_nullish [simp]: "\<not> nullish (js_or b (JObj []))"
  by (auto simp: js_or_def nullish_def)

lemma handler_post:
  "req_method req = ''POST'' \<Longrightarrow>
   handler req environ W =
     (if \<not> js_truthy (message_of req) then
        (Return (respond 400 (error_body (JStr ''Missing \"message\" in request body''))), [])
      else if \<not> configured environ then
        (Return (respond 500 (error_body (JStr
           ''Coze API token or Bot ID not configured in environment variables.''))), [])
      else catch_block
             (try_block (the (COZE_API_TOKEN environ)) (the (COZE_BOT_ID environ)) (message_of req) W))"
  by (simp add: handler_def message_of_def configured_def)

lemma handler_run:
  "valid_post req \<Longrightarrow> configured environ \<Longrightarrow>
   handler req environ W =
     catch_block (try_block (the (COZE_API_TOKEN environ)) (the (COZE_BOT_ID environ)) (message_of req) W)"
  by (simp add: handler_post valid_post_def)

lemma calls_append [simp]: "calls k (xs @ ys) = calls k xs + calls k ys"
  by (simp add: calls_def)

lemma calls_Nil [simp]: "calls k [] = 0"
  by (simp add: calls_def)

lemma calls_Cons [simp]: "calls k (e # es) = (if is_call k e then 1 else 0) + calls k es"
  by (simp add: calls_def)

lemma outbound_append [simp]: "outbound (xs @ ys) = outbound xs + outbound ys"
  by (simp add: outbound_def)

lemma outbound_Nil [simp]: "outbound [] = 0"
  by (simp add: outbound_def)

lemma outbound_Cons [simp]: "outbound (e # es) = (if is_fetch e then 1 else 0) + outbound es"
  by (simp add: outbound_def)

lemma reports_cases:
  assumes "reports r s"
  obtains h d where "r = Fetched (Response h (Some d))" "js_prop d ''code'' = JNum 0"
    "\<not> nullish d" "\<not> nullish (js_prop d ''data'')" "js_prop (js_prop d ''data'') ''status'' = s"
  proof (cases "(r, s)" rule: reports.cases)
  case (1 h d s')
  with assms have "js_prop d ''code'' = JNum 0" by simp
  then have "\<not> nullish d" by (rule js_prop_eq_imp) simp
  with 1 assms that show ?thesis by simp
qed (use assms in simp_all)

lemma poll_result_ok:
  "js_prop d ''code'' = JNum 0 \<Longrightarrow> \<not> nullish (js_prop d ''data'') \<Longrightarrow>
   poll_result st d = Next (st\<lparr>status := js_prop (js_prop d ''data'') ''status'', attempts := attempts st + 1\<rparr>)"
  by (cases "nullish d") (simp_all add: poll_result_def js_prop_nullish)

lemma poll_result_error:
  "\<not> nullish d \<Longrightarrow> js_prop d ''code'' \<noteq> JNum 0 \<Longrightarrow>
   poll_result st d =
     Return (respond 500 (error_body (js_or (js_prop d ''msg'') (JStr ''Error while polling Coze chat''))))"
  by (simp add: poll_result_def)

lemma poll_body_reports:
  assumes "id_query c v = Next q" and "reports (poll_resp W k) s"
  shows "poll_body W tok c v k st =
     (Next (), st\<lparr>status := s, attempts := attempts st + 1\<rparr>,
      [Sleep 1000,
       Fetch RetrieveChat (''https://api.coze.com/v3/chat/retrieve'' @ q) (''Bearer '' @ tok) None
         (poll_resp W k)])"
  using assms(2)
  by (rule reports_cases) (simp add: poll_body_def assms(1) poll_result_ok del: append.simps)

lemma poll_loop_exit:
  "\<not> (status st = JStr ''in_progress'' \<and> attempts st < 30) \<Longrightarrow>
   poll_loop W tok c v k st = (Next (), st, [])"
  by (subst poll_loop.simps) auto

lemma poll_loop_step:
  "status st = JStr ''in_progress'' \<Longrightarrow> attempts st < 30 \<Longrightarrow>
   poll_loop W tok c v k st =
     (case poll_body W tok c v k st of
        (Next u, st', ev) \<Rightarrow>
          (case poll_loop W tok c v (Suc k) st' of (x, st'', ev') \<Rightarrow> (x, st'', ev @ ev'))
      | (Return r, st', ev) \<Rightarrow> (Return r, st', ev)
      | (Throw e, st', ev) \<Rightarrow> (Throw e, st', ev))"
  by (subst poll_loop.simps) simp

lemma poll_loop_all_in_progress:
  assumes q: "id_query c v = Next q"
    and polls: "\<And>k. reports (poll_resp W k) (JStr ''in_progress'')"
  shows "status st = JStr ''in_progress'' \<Longrightarrow> attempts st \<le> 30 \<Longrightarrow>
    fst (poll_loop W tok c v k st) = Next () \<and>
    fst (snd (poll_loop W tok c v k st)) = st\<lparr>attempts := 30\<rparr> \<and>
    calls RetrieveChat (snd (snd (poll_loop W tok c v k st))) = 30 - attempts st \<and>
    calls ListMessages (snd (snd (poll_loop W tok c v k st))) = 0 \<and>
    calls CreateChat (snd (snd (poll_loop W tok c v k st))) = 0"
proof (induction "30 - attempts st" arbitrary: st k)
  case 0
  then have "attempts st = 30" by simp
  then show ?case by (simp add: poll_loop_exit)
next
  case (Suc n)
  let ?st' = "st\<lparr>status := JStr ''in_progress'', attempts := attempts st + 1\<rparr>"
  from Suc.hyps(2) have lt: "attempts st < 30" by simp
  note body = poll_body_reports [OF q polls, of tok k st]
  have "n = 30 - attempts ?st'" "status ?st' = JStr ''in_progress''" "attempts ?st' \<le> 30"
    using Suc.hyps(2) by simp_all
  note ih = Suc.hyps(1) [OF this, of "Suc k"]
  obtain x st'' ev' where rest: "poll_loop W tok c v (Suc k) ?st' = (x, st'', ev')"
    by (cases "poll_loop W tok c v (Suc k) ?st'") auto
  have "poll_loop W tok c v k st =
      (x, st'', [Sleep 1000,
         Fetch RetrieveChat (''https://api.coze.com/v3/chat/retrieve'' @ q) (''Bearer '' @ tok) None
           (poll_resp W k)] @ ev')"
    using Suc.prems(1) lt by (simp only: poll_loop_step body rest prod.case ctl.case)
  with ih rest lt Suc.prems(1) show ?case by simp
qed

lemma poll_loop_cases:
  assumes exit: "\<And>k st. \<not> (status st = JStr ''in_progress'' \<and> attempts st < 30) \<Longrightarrow>
      P k st (Next (), st, [])"
    and stop: "\<And>k st x st' ev. status st = JStr ''in_progress'' \<Longrightarrow> attempts st < 30 \<Longrightarrow>
      poll_body W tok c v k st = (x, st', ev) \<Longrightarrow> x \<noteq> Next () \<Longrightarrow> P k st (x, st', ev)"
    and step: "\<And>k st st' ev x st'' ev'. status st = JStr ''in_progress'' \<Longrightarrow> attempts st < 30 \<Longrightarrow>
      poll_body W tok c v k st = (Next (), st', ev) \<Longrightarrow>
      poll_loop W tok c v (Suc k) st' = (x, st'', ev') \<Longrightarrow>
      P (Suc k) st' (x, st'', ev') \<Longrightarrow> P k st (x, st'', ev @ ev')"
  shows "P k st (poll_loop W tok c v k st)"
proof (induction "30 - attempts st" arbitrary: st k rule: less_induct)
  case less
  show ?case
  proof (cases "status st = JStr ''in_progress'' \<and> attempts st < 30")
    case False
    then show ?thesis by (simp add: poll_loop_exit exit)
  next
    case True
    obtain x st' ev where body: "poll_body W tok c v k st = (x, st', ev)"
      by (cases "poll_body W tok c v k st") auto
    show ?thesis
    proof (cases "x = Next ()")
      case False
      with True body have "poll_loop W tok c v k st = (x, st', ev)"
        by (cases x) (simp_all add: poll_loop_step)
      with stop [OF _ _ body False] True show ?thesis by simp
    next
      case x: True
      obtain y st'' ev' where rest: "poll_loop W tok c v (Suc k) st' = (y, st'', ev')"
        by (cases "poll_loop W tok c v (Suc k) st'") auto
      from body x have "attempts st' = Suc (attempts st)"
        by (auto dest: poll_body_attempts)
      with True have "30 - attempts st' < 30 - attempts st" by arith
      from less [OF this, of "Suc k"] rest have "P (Suc k) st' (y, st'', ev')" by simp
      from step [OF _ _ _ rest this, of st ev] True body x
      have "P k st (y, st'', ev @ ev')" by simp
      moreover from True body x rest have "poll_loop W tok c v k st = (y, st'', ev @ ev')"
        by (simp add: poll_loop_step)
      ultimately show ?thesis by simp
    qed
  qed
qed

lemma poll_body_events:
  "snd (snd (poll_body W tok c v k st)) = [Sleep 1000] \<or>
   (\<exists>u. snd (snd (poll_body W tok c v k st)) =
      [Sleep 1000, Fetch RetrieveChat u (''Bearer '' @ tok) None (poll_resp W k)])"
  by (simp add: poll_body_def Let_def split: ctl.splits)

lemma poll_body_calls:
  "poll_body W tok c v k st = (x, st', ev) \<Longrightarrow>
   calls CreateChat ev = 0 \<and> calls ListMessages ev = 0 \<and> calls RetrieveChat ev \<le> 1"
  using poll_body_events [of W tok c v k st] by auto

lemma poll_loop_calls:
  "calls CreateChat (snd (snd (poll_loop W tok c v k st))) = 0 \<and>
   calls ListMessages (snd (snd (poll_loop W tok c v k st))) = 0"
  by (rule poll_loop_cases) (auto dest: poll_body_calls)

lemma create_chat_calls [simp]:
  "calls k (snd (create_chat tok bid m W)) = (if k = CreateChat then 1 else 0)"
  "outbound (snd (create_chat tok bid m W)) = 1"
  by (simp_all add: create_chat_def)

lemma create_chat_created:
  "created W c v s \<Longrightarrow> fst (create_chat tok bid m W) = Next (c, v, s)"
  by (simp add: created_def create_chat_def)

lemma try_block_created:
  assumes "created W c v s"
  shows "try_block tok bid m W =
     (case poll_loop W tok c v 0 \<lparr>status = s, attempts = 0\<rparr> of
        (Throw e, st, ev2) \<Rightarrow> (Throw e, snd (create_chat tok bid m W) @ ev2)
      | (Return r, st, ev2) \<Rightarrow> (Return r, snd (create_chat tok bid m W) @ ev2)
      | (Next u, st, ev2) \<Rightarrow>
          (case after_loop W tok c v (status st) of
             (x, ev3) \<Rightarrow> (x, snd (create_chat tok bid m W) @ ev2 @ ev3)))"
  using create_chat_created [OF assms, of tok bid m]
  by (cases "create_chat tok bid m W") (auto simp: try_block_def split: prod.splits ctl.splits)

lemma after_loop_incomplete:
  "s \<noteq> JStr ''completed'' \<Longrightarrow> to_string s = Next t \<Longrightarrow>
   after_loop W tok c v s =
     (Return (respond 500 (error_body (JStr (''Chat did not complete (status: '' @ t @ '')'')))), [])"
  by (simp add: after_loop_def)

lemma after_loop_completed:
  "id_query c v = Next q \<Longrightarrow>
   after_loop W tok c v (JStr ''completed'') =
     (bind (await_json (list_resp W)) list_result,
      [Fetch ListMessages (''https://api.coze.com/v3/chat/message/list'' @ q)
         (''Bearer '' @ tok) None (list_resp W)])"
  by (simp add: after_loop_def)

lemma bind_eq_Return:
  "bind m f = Return r \<longleftrightarrow> m = Return r \<or> (\<exists>x. m = Next x \<and> f x = Return r)"
  by (cases m) auto

lemma create_result_error:
  "\<not> nullish d \<Longrightarrow> js_prop d ''code'' \<noteq> JNum 0 \<Longrightarrow>
   create_result d =
     Return (respond 500 (error_body (js_or (js_prop d ''msg'') (JStr ''Failed to start Coze chat''))))"
  by (simp add: create_result_def)

lemma try_block_Return:
  "fst (create_chat tok bid m W) = Return r \<Longrightarrow>
   try_block tok bid m W = (Return r, snd (create_chat tok bid m W))"
  by (cases "create_chat tok bid m W") (simp add: try_block_def)

lemma catch_block_calls [simp]:
  "calls k (snd (catch_block p)) = calls k (snd p)"
  "outbound (snd (catch_block p)) = outbound (snd p)"
  by (cases p rule: catch_block.cases; simp)+

lemma to_string_Return [simp]: "to_string s \<noteq> Return r" "join_elems xs \<noteq> Return r"
  by (induction s and xs rule: to_string_join_elems.induct)
     (auto simp: bind_eq_Return split: if_splits)

lemma id_query_Return [simp]: "id_query c v \<noteq> Return r"
  by (auto simp: id_query_def bind_eq_Return)

lemma get_prop_Return [simp]: "get_prop v k \<noteq> Return r"
  by (simp add: get_prop_def)

lemma await_json_Return [simp]: "await_json x \<noteq> Return r"
  by (cases x rule: await_json.cases) auto

lemma create_result_status: "create_result d = Return r \<Longrightarrow> http_status r = 500"
  by (auto simp: create_result_def bind_eq_Return respond_def split: if_splits)

lemma poll_result_status: "poll_result st d = Return r \<Longrightarrow> http_status r = 500"
  by (auto simp: poll_result_def bind_eq_Return respond_def split: if_splits)

lemma filter_js_Return [simp]: "filter_js is_bot_message ms \<noteq> Return r"
  by (induction ms) (auto simp: bind_eq_Return is_bot_message_def split: if_splits)

lemma call_filter_Return [simp]: "call_filter d is_bot_message \<noteq> Return r"
  by (cases d) auto

lemma list_result_status: "list_result d = Return r \<Longrightarrow> http_status r = 500 \<or> http_status r = 200"
  by (auto simp: list_result_def bind_eq_Return respond_def split: if_splits)

lemma poll_body_status:
  "poll_body W tok c v k st = (Return r, st', ev) \<Longrightarrow> http_status r = 500"
  by (auto simp: poll_body_def Let_def bind_eq_Return split: ctl.splits dest: poll_result_status)

lemma poll_loop_status:
  "\<forall>r. fst (poll_loop W tok c v k st) = Return r \<longrightarrow> http_status r = 500"
  by (rule poll_loop_cases) (auto dest: poll_body_status)

lemma after_loop_status:
  "fst (after_loop W tok c v s) = Return r \<Longrightarrow> http_status r = 500 \<or> http_status r = 200"
  by (auto simp: after_loop_def bind_eq_Return respond_def
      split: if_splits ctl.splits dest: list_result_status)

lemma try_block_status:
  assumes "fst (try_block tok bid m W) = Return r"
  shows "http_status r = 500 \<or> http_status r = 200"
proof (cases "create_chat tok bid m W")
  case (Pair x ev)
  show ?thesis
  proof (cases x)
    case (Next ids)
    obtain c v s where ids: "ids = (c, v, s)" by (cases ids) auto
    obtain y st ev2 where loop: "poll_loop W tok c v 0 \<lparr>status = s, attempts = 0\<rparr> = (y, st, ev2)"
      by (cases "poll_loop W tok c v 0 \<lparr>status = s, attempts = 0\<rparr>") auto
    show ?thesis
    proof (cases y)
      case (Return r')
      with assms Pair Next ids loop have "r' = r" by (simp add: try_block_def)
      with poll_loop_status [of W tok c v 0 "\<lparr>status = s, attempts = 0\<rparr>"] loop Return
      show ?thesis by simp
    next
      case (Next u)
      with assms Pair \<open>x = Next ids\<close> ids loop
      have "fst (after_loop W tok c v (status st)) = Return r"
        by (simp add: try_block_def split: prod.splits)
      then show ?thesis by (rule after_loop_status)
    next
      case (Throw e)
      with assms Pair Next ids loop show ?thesis by (simp add: try_block_def)
    qed
  next
    case (Return r')
    with assms Pair have "r' = r" by (simp add: try_block_def)
    with Pair Return have "bind (await_json (create_resp W)) create_result = Return r"
      by (simp add: create_chat_def)
    then show ?thesis by (auto simp: bind_eq_Return dest: create_result_status)
  next
    case (Throw e)
    with assms Pair show ?thesis by (simp add: try_block_def)
  qed
qed

lemma catch_block_status:
  assumes "fst (catch_block p) = Return r"
  shows "fst p = Return r \<or> http_status r = 500"
  using assms by (cases p rule: catch_block.cases) (auto simp: respond_def)

lemma handler_run_status:
  assumes "valid_post req" "configured environ" "fst (handler req environ W) = Return r"
  shows "http_status r = 500 \<or> http_status r = 200"
  using assms(3) unfolding handler_run [OF assms(1,2)]
  by (auto dest!: catch_block_status try_block_status)

lemma printable_query: "printable c v \<Longrightarrow> \<exists>q. id_query c v = Next q"
  by (simp add: printable_def split: ctl.splits)

lemma after_loop_calls [simp]:
  "calls RetrieveChat (snd (after_loop W tok c v s)) = 0"
  "calls CreateChat (snd (after_loop W tok c v s)) = 0"
  by (simp_all add: after_loop_def split: ctl.splits)

lemma handler_loop_exit:
  assumes "valid_post req" and "configured environ" and "created W c v s"
    and "poll_loop W (the (COZE_API_TOKEN environ)) c v 0 \<lparr>status = s, attempts = 0\<rparr> =
           (Next (), st, ev)"
  shows "handler req environ W =
     catch_block
       (fst (after_loop W (the (COZE_API_TOKEN environ)) c v (status st)),
        snd (create_chat (the (COZE_API_TOKEN environ)) (the (COZE_BOT_ID environ)) (message_of req) W)
          @ ev @ snd (after_loop W (the (COZE_API_TOKEN environ)) c v (status st)))"
  by (simp add: handler_run [OF assms(1,2)] try_block_created [OF assms(3)] assms(4)
      split: prod.splits)

lemma valid_sample_request: "valid_post sample_request"
  by (simp add: valid_post_def sample_request_def message_of_def js_or_def)

lemma configured_sample_env: "configured sample_env"
  by (simp add: configured_def sample_env_def)

lemma created_sample:
  "created (sample_remote h (chat_body s) polls msgs) (JStr ''c1'') (JStr ''v1'') (JStr s)"
  by (simp add: created_def sample_remote_def chat_body_def create_result_def nullish_def)

lemma created_number_status:
  "created number_status_remote (JStr ''c1'') (JStr ''v1'') (JNum 1000000000000000000000)"
  by (simp add: created_def number_status_remote_def sample_remote_def number_status_body_def
      create_result_def nullish_def)

lemma show_number_examples:
  "show_number 0 = ''0''"
  "show_number (- 1203) = ''-1203''"
  "show_number 9007199254740993 = ''9007199254740992''"
  "show_number 1152921504606846976 = ''1152921504606847000''"
  "show_number 123456789012345678901 = ''123456789012345680000''"
  "show_number 1000000000000000000000 = ''1e+21''"
  "show_number 123456789012345678901234567890 = ''1.2345678901234568e+29''"
  by code_simp+

lemma to_string_number_status:
  "to_string (JNum 1000000000000000000000) = Next ''1e+21''"
  by (simp add: show_number_examples)

lemma printable_sample: "printable (JStr a) (JStr b)"
  by (simp add: printable_def id_query_def)

lemma poll_loop_reports:
  assumes "id_query c v = Next q" and "reports (poll_resp W k) s"
    and "status st = JStr ''in_progress''" and "attempts st < 30"
  shows "poll_loop W tok c v k st =
     (case poll_loop W tok c v (Suc k) (st\<lparr>status := s, attempts := attempts st + 1\<rparr>) of
        (x, st'', ev') \<Rightarrow>
          (x, st'', [Sleep 1000,
             Fetch RetrieveChat (''https://api.coze.com/v3/chat/retrieve'' @ q) (''Bearer '' @ tok)
               None (poll_resp W k)] @ ev'))"
  by (simp only: poll_loop_step [OF assms(3,4)] poll_body_reports [OF assms(1,2)] prod.case ctl.case)

lemma poll_loop_reports_counts:
  assumes "id_query c v = Next q" and "reports (poll_resp W k) s"
    and "status st = JStr ''in_progress''" and "attempts st < 30"
    and "poll_loop W tok c v k' st' = (x, st'', ev')"
    and "k' = Suc k" and "st' = st\<lparr>status := s, attempts := attempts st + 1\<rparr>"
  shows "\<exists>ev. poll_loop W tok c v k st = (x, st'', ev) \<and>
    calls RetrieveChat ev = Suc (calls RetrieveChat ev')"
  using assms(5) unfolding assms(6,7)
  by (simp add: poll_loop_reports [OF assms(1-4)])

lemma is_bot_message_object:
  "\<not> nullish m \<Longrightarrow> is_bot_message m = Next (assistant_answer m)"
  by (simp add: is_bot_message_def assistant_answer_def)

lemma filter_js_objects:
  "\<forall>m\<in>set ms. \<not> nullish m \<Longrightarrow>
   filter_js is_bot_message ms = Next (filter assistant_answer ms)"
  by (induction ms) (simp_all add: is_bot_message_object)

lemma list_result_ok:
  assumes "js_prop d ''code'' = JNum 0" and "js_prop d ''data'' = JArr ms"
    and "\<forall>m\<in>set ms. \<not> nullish m"
  shows "list_result d =
     Return (respond 200 (reply_body
       (if filter assistant_answer ms = [] then JStr ''''
        else js_prop (last (filter assistant_answer ms)) ''content'')))"
proof -
  have d: "\<not> nullish d"
    using assms(1) by (rule js_prop_eq_imp) simp
  have l: "\<not> nullish (last (filter assistant_answer ms))" if "filter assistant_answer ms \<noteq> []"
  proof -
    from that have "last (filter assistant_answer ms) \<in> set (filter assistant_answer ms)"
      by (rule last_in_set)
    with assms(3) show ?thesis by simp
  qed
  show ?thesis
    using d l assms(1,2)
    by (simp add: list_result_def filter_js_objects [OF assms(3)] last_conv_nth)
qed

lemma try_block_listing:
  assumes "calls ListMessages (snd (try_block tok bid m W)) \<noteq> 0"
  shows "fst (try_block tok bid m W) = bind (await_json (list_resp W)) list_result"
proof (cases "create_chat tok bid m W")
  case (Pair x ev)
  have ev: "calls ListMessages ev = 0"
    using create_chat_calls(1) [of ListMessages tok bid m W] Pair by simp
  show ?thesis
  proof (cases x)
    case (Next ids)
    obtain c v s where ids: "ids = (c, v, s)" by (cases ids) auto
    obtain y st ev2 where loop: "poll_loop W tok c v 0 \<lparr>status = s, attempts = 0\<rparr> = (y, st, ev2)"
      by (cases "poll_loop W tok c v 0 \<lparr>status = s, attempts = 0\<rparr>") auto
    have ev2: "calls ListMessages ev2 = 0"
      using poll_loop_calls [of W tok c v 0 "\<lparr>status = s, attempts = 0\<rparr>"] loop by simp
    show ?thesis
    proof (cases y)
      case (Next u)
      have tb: "try_block tok bid m W =
          (fst (after_loop W tok c v (status st)), ev @ ev2 @ snd (after_loop W tok c v (status st)))"
        using Pair \<open>x = Next ids\<close> ids loop Next by (simp add: try_block_def split: prod.splits)
      with assms ev ev2 have "calls ListMessages (snd (after_loop W tok c v (status st))) \<noteq> 0"
        by simp
      then have "fst (after_loop W tok c v (status st)) = bind (await_json (list_resp W)) list_result"
        by (auto simp: after_loop_def split: if_splits ctl.splits)
      with tb show ?thesis by simp
    next
      case (Return r)
      with assms Pair Next ids loop ev ev2 show ?thesis by (simp add: try_block_def)
    next
      case (Throw e)
      with assms Pair Next ids loop ev ev2 show ?thesis by (simp add: try_block_def)
    qed
  next
    case (Return r)
    with assms Pair ev show ?thesis by (simp add: try_block_def)
  next
    case (Throw e)
    with assms Pair ev show ?thesis by (simp add: try_block_def)
  qed
qed

lemma handler_listing:
  assumes "calls ListMessages (snd (handler req environ W)) \<noteq> 0"
  shows "valid_post req \<and> configured environ \<and>
    fst (try_block (the (COZE_API_TOKEN environ)) (the (COZE_BOT_ID environ)) (message_of req) W) =
      bind (await_json (list_resp W)) list_result"
proof -
  have p: "req_method req = ''POST''"
    using assms by (cases "req_method req = ''POST''") (simp_all add: handler_def)
  from assms have v: "valid_post req" and c: "configured environ"
    unfolding handler_post [OF p] valid_post_def
    by (simp_all add: p split: if_splits)
  from assms have "calls ListMessages (snd (try_block (the (COZE_API_TOKEN environ))
      (the (COZE_BOT_ID environ)) (message_of req) W)) \<noteq> 0"
    by (simp add: handler_run [OF v c])
  with v c show ?thesis by (simp add: try_block_listing)
qed

lemma calls_ListMessages_sample:
  "calls ListMessages (snd (handler sample_request sample_env completed_remote)) = 1"
  "calls ListMessages (snd (handler sample_request sample_env no_answer_remote)) = 1"
  by code_simp+

lemma list_result_error:
  "\<not> nullish d \<Longrightarrow> js_prop d ''code'' \<noteq> JNum 0 \<Longrightarrow>
   list_result d =
     Return (respond 500 (error_body (js_or (js_prop d ''msg'') (JStr ''Failed to fetch chat messages''))))"
  by (simp add: list_result_def)

lemma poll_body_upstream:
  assumes "poll_body W tok c v k st = (x, st', ev)"
    and "Fetch k' u a b (Fetched (Response h (Some d))) \<in> set ev"
    and "\<not> nullish d" and "js_prop d ''code'' \<noteq> JNum 0"
  shows "x = Return (respond 500 (error_body (js_or (js_prop d ''msg'') (JStr (default_error k')))))"
proof (cases "id_query c v")
  case (Next q)
  with assms(1,2) have r: "poll_resp W k = Fetched (Response h (Some d))" and k': "k' = RetrieveChat"
    by (auto simp: poll_body_def Let_def split: ctl.splits)
  from assms(1) show ?thesis
    by (simp add: poll_body_def Next r k' poll_result_error [OF assms(3,4)])
next
  case (Return r)
  then show ?thesis by simp
next
  case (Throw e)
  with assms(1,2) show ?thesis by (auto simp: poll_body_def)
qed

lemma poll_loop_upstream:
  "\<forall>k' u a b h d. Fetch k' u a b (Fetched (Response h (Some d))) \<in> set (snd (snd (poll_loop W tok c v k st))) \<longrightarrow>
     \<not> nullish d \<longrightarrow> js_prop d ''code'' \<noteq> JNum 0 \<longrightarrow>
     fst (poll_loop W tok c v k st) =
       Return (respond 500 (error_body (js_or (js_prop d ''msg'') (JStr (default_error k')))))"
proof (rule poll_loop_cases [where P = "\<lambda>k st res.
    \<forall>k' u a b h d. Fetch k' u a b (Fetched (Response h (Some d))) \<in> set (snd (snd res)) \<longrightarrow>
     \<not> nullish d \<longrightarrow> js_prop d ''code'' \<noteq> JNum 0 \<longrightarrow>
     fst res = Return (respond 500 (error_body (js_or (js_prop d ''msg'') (JStr (default_error k')))))"],
    goal_cases)
  case (1 k st)
  then show ?case by simp
next
  case (2 k st x st' ev)
  then show ?case by (auto dest: poll_body_upstream)
next
  case (3 k st st' ev x st'' ev')
  have "False" if "Fetch k' u a b (Fetched (Response h (Some d))) \<in> set ev"
    "\<not> nullish d" "js_prop d ''code'' \<noteq> JNum 0" for k' u a b h d
    using poll_body_upstream [OF 3(3) that] by simp
  with 3(5) show ?case by simp blast
qed

lemma try_block_upstream:
  assumes "Fetch k u a b (Fetched (Response h (Some d))) \<in> set (snd (try_block tok bid m W))"
    and "\<not> nullish d" and "js_prop d ''code'' \<noteq> JNum 0"
  shows "fst (try_block tok bid m W) =
     Return (respond 500 (error_body (js_or (js_prop d ''msg'') (JStr (default_error k)))))"
proof (cases "create_chat tok bid m W")
  case (Pair x ev)
  have first: "x = Return (respond 500 (error_body (js_or (js_prop d ''msg'') (JStr (default_error k)))))"
    if "Fetch k u a b (Fetched (Response h (Some d))) \<in> set ev"
  proof -
    from that Pair have "create_resp W = Fetched (Response h (Some d))" and "k = CreateChat"
      by (auto simp: create_chat_def)
    with Pair assms(2,3) show ?thesis
      by (auto simp: create_chat_def create_result_error)
  qed
  show ?thesis
  proof (cases x)
    case (Next ids)
    with first have not_first: "Fetch k u a b (Fetched (Response h (Some d))) \<notin> set ev" by auto
    obtain c v s where ids: "ids = (c, v, s)" by (cases ids) auto
    obtain y st ev2 where loop: "poll_loop W tok c v 0 \<lparr>status = s, attempts = 0\<rparr> = (y, st, ev2)"
      by (cases "poll_loop W tok c v 0 \<lparr>status = s, attempts = 0\<rparr>") auto
    have second: "y = Return (respond 500 (error_body (js_or (js_prop d ''msg'') (JStr (default_error k)))))"
      if "Fetch k u a b (Fetched (Response h (Some d))) \<in> set ev2"
      using poll_loop_upstream [of W tok c v 0 "\<lparr>status = s, attempts = 0\<rparr>"] loop that assms(2,3)
      by auto
    show ?thesis
    proof (cases y)
      case (Next u')
      with second have not_second: "Fetch k u a b (Fetched (Response h (Some d))) \<notin> set ev2" by auto
      have tb: "try_block tok bid m W =
          (fst (after_loop W tok c v (status st)), ev @ ev2 @ snd (after_loop W tok c v (status st)))"
        using Pair \<open>x = Next ids\<close> ids loop Next by (simp add: try_block_def split: prod.splits)
      with assms(1) not_first not_second
      have "Fetch k u a b (Fetched (Response h (Some d))) \<in> set (snd (after_loop W tok c v (status st)))"
        by simp
      then have "status st = JStr ''completed''" and "\<exists>q. id_query c v = Next q"
        and "list_resp W = Fetched (Response h (Some d))" and "k = ListMessages"
        by (auto simp: after_loop_def split: if_splits ctl.splits)
      then have "fst (after_loop W tok c v (status st)) =
          Return (respond 500 (error_body (js_or (js_prop d ''msg'') (JStr (default_error k)))))"
        using assms(2,3) by (auto simp: after_loop_def list_result_error)
      with tb show ?thesis by simp
    next
      case (Return r)
      with assms(1) Pair \<open>x = Next ids\<close> ids loop not_first second show ?thesis
        by (simp add: try_block_def)
    next
      case (Throw e)
      with assms(1) Pair \<open>x = Next ids\<close> ids loop not_first second show ?thesis
        by (simp add: try_block_def)
    qed
  next
    case (Return r)
    with assms(1) Pair first show ?thesis by (simp add: try_block_def)
  next
    case (Throw e)
    with assms(1) Pair first show ?thesis by (simp add: try_block_def)
  qed
qed

lemma handler_fetch_valid:
  assumes "Fetch k u a b r \<in> set (snd (handler req environ W))"
  shows "valid_post req \<and> configured environ"
proof -
  have p: "req_method req = ''POST''"
    using assms by (cases "req_method req = ''POST''") (simp_all add: handler_def)
  from assms show ?thesis
    unfolding handler_post [OF p] valid_post_def
    by (simp add: p split: if_splits)
qed

lemma catch_block_fetch:
  "Fetch k u a b r \<in> set (snd (catch_block p)) \<longleftrightarrow> Fetch k u a b r \<in> set (snd p)"
  by (cases p rule: catch_block.cases) simp_all

lemma poll_body_same:
  assumes "await_json (poll_resp W k) = await_json (poll_resp W' k)"
  shows "fst (poll_body W tok c v k st) = fst (poll_body W' tok c v k st) \<and>
         fst (snd (poll_body W tok c v k st)) = fst (snd (poll_body W' tok c v k st))"
  by (simp add: poll_body_def Let_def assms split: ctl.splits)

lemma poll_loop_same:
  assumes "\<And>k. await_json (poll_resp W k) = await_json (poll_resp W' k)"
  shows "fst (poll_loop W tok c v k st) = fst (poll_loop W' tok c v k st) \<and>
         fst (snd (poll_loop W tok c v k st)) = fst (snd (poll_loop W' tok c v k st))"
proof (rule poll_loop_cases [where P = "\<lambda>k st res.
    fst res = fst (poll_loop W' tok c v k st) \<and> fst (snd res) = fst (snd (poll_loop W' tok c v k st))"],
    goal_cases)
  case (1 k st)
  then show ?case by (simp add: poll_loop_exit)
next
  case (2 k st x st' ev)
  with poll_body_same [OF assms, of tok c v k st]
  obtain ev' where "poll_body W' tok c v k st = (x, st', ev')"
    by (cases "poll_body W' tok c v k st") auto
  with 2 show ?case by (cases x) (simp_all add: poll_loop_step)
next
  case (3 k st st' ev x st'' ev')
  with poll_body_same [OF assms, of tok c v k st]
  obtain ev2 where "poll_body W' tok c v k st = (Next (), st', ev2)"
    by (cases "poll_body W' tok c v k st") auto
  with 3 show ?case by (simp add: poll_loop_step split: prod.splits)
qed

lemma after_loop_same:
  assumes "await_json (list_resp W) = await_json (list_resp W')"
  shows "fst (after_loop W tok c v s) = fst (after_loop W' tok c v s)"
  by (simp add: after_loop_def assms split: ctl.splits)

lemma try_block_fst:
  "fst (try_block tok bid m W) =
     (case fst (create_chat tok bid m W) of
        Throw e \<Rightarrow> Throw e
      | Return r \<Rightarrow> Return r
      | Next (c, v, s) \<Rightarrow>
          (case fst (poll_loop W tok c v 0 \<lparr>status = s, attempts = 0\<rparr>) of
             Throw e \<Rightarrow> Throw e
           | Return r \<Rightarrow> Return r
           | Next u \<Rightarrow>
               fst (after_loop W tok c v
                 (status (fst (snd (poll_loop W tok c v 0 \<lparr>status = s, attempts = 0\<rparr>)))))))"
  by (auto simp: try_block_def split: prod.splits ctl.splits)

lemma try_block_same:
  assumes "await_json (create_resp W) = await_json (create_resp W')"
    and "\<And>k. await_json (poll_resp W k) = await_json (poll_resp W' k)"
    and "await_json (list_resp W) = await_json (list_resp W')"
  shows "fst (try_block tok bid m W) = fst (try_block tok bid m W')"
proof -
  have c: "fst (create_chat tok bid m W) = fst (create_chat tok bid m W')"
    by (simp add: create_chat_def assms(1))
  show ?thesis
    unfolding try_block_fst c
    by (simp add: poll_loop_same [OF assms(2)] after_loop_same [OF assms(3)]
        split: ctl.splits prod.splits)
qed

lemma catch_block_fst: "fst p = fst p' \<Longrightarrow> fst (catch_block p) = fst (catch_block p')"
  by (cases p rule: catch_block.cases; cases p' rule: catch_block.cases) simp_all

lemma handler_same:
  assumes "await_json (create_resp W) = await_json (create_resp W')"
    and "\<And>k. await_json (poll_resp W k) = await_json (poll_resp W' k)"
    and "await_json (list_resp W) = await_json (list_resp W')"
  shows "fst (handler req environ W) = fst (handler req environ W')"
proof (cases "req_method req = ''POST''")
  case True
  show ?thesis
    unfolding handler_post [OF True]
    by (simp add: catch_block_fst [OF try_block_same [OF assms]])
next
  case False
  then show ?thesis by (simp add: handler_def)
qed

lemma poll_error_event:
  "Fetch RetrieveChat ''https://api.coze.com/v3/chat/retrieve?chat_id=c1&conversation_id=v1''
     ''Bearer pat_token'' None (Fetched (Response 200 (Some failure_body)))
   \<in> set (snd (handler sample_request sample_env poll_error_remote))"
  by code_simp

section \<open>Properties of the handler\<close>

text \<open>
  C1. When the handler reaches the list call and the list response has code 0 and an array
  of messages (objects) as its data, the answer is status 200 with \<open>reply\<close> the content of the
  last message, in the order of the list, whose role is \<open>assistant\<close> and whose type is
  \<open>answer\<close>; with no such message the answer is status 200 with the empty string as
  \<open>reply\<close>.
\<close>

theorem reply_is_last_answer:
  assumes "calls ListMessages (snd (handler req environ W)) \<noteq> 0"
    and "list_resp W = Fetched (Response h (Some d))"
    and "js_prop d ''code'' = JNum 0" and "js_prop d ''data'' = JArr ms"
    and "\<forall>m\<in>set ms. \<not> nullish m"
  shows "fst (handler req environ W) =
     Return (respond 200 (reply_body
       (if filter assistant_answer ms = [] then JStr ''''
        else js_prop (last (filter assistant_answer ms)) ''content'')))"
proof -
  from handler_listing [OF assms(1)]
  have v: "valid_post req" and c: "configured environ"
    and t: "fst (try_block (the (COZE_API_TOKEN environ)) (the (COZE_BOT_ID environ))
        (message_of req) W) = bind (await_json (list_resp W)) list_result"
    by simp_all
  have "bind (await_json (list_resp W)) list_result =
     Return (respond 200 (reply_body
       (if filter assistant_answer ms = [] then JStr ''''
        else js_prop (last (filter assistant_answer ms)) ''content'')))"
    by (simp add: assms(2) list_result_ok [OF assms(3-5)])
  with t show ?thesis
    unfolding handler_run [OF v c]
    by (cases "try_block (the (COZE_API_TOKEN environ)) (the (COZE_BOT_ID environ))
        (message_of req) W") simp
qed

theorem reply_is_last_answer_witness:
  "calls ListMessages (snd (handler sample_request sample_env completed_remote)) \<noteq> 0 \<and>
   fst (handler sample_request sample_env completed_remote) =
     Return (respond 200 (reply_body (JStr ''B''))) \<and>
   calls ListMessages (snd (handler sample_request sample_env no_answer_remote)) \<noteq> 0 \<and>
   fst (handler sample_request sample_env no_answer_remote) =
     Return (respond 200 (reply_body (JStr '''')))"
proof -
  let ?a = "JObj [(''role'', JStr ''assistant''), (''type'', JStr ''answer''), (''content'', JStr ''A'')]"
  let ?q = "JObj [(''role'', JStr ''user''), (''type'', JStr ''question''), (''content'', JStr ''Q'')]"
  let ?b = "JObj [(''role'', JStr ''assistant''), (''type'', JStr ''answer''), (''content'', JStr ''B'')]"
  have r1: "calls ListMessages (snd (handler sample_request sample_env completed_remote)) \<noteq> 0"
    and r2: "calls ListMessages (snd (handler sample_request sample_env no_answer_remote)) \<noteq> 0"
    by (simp_all add: calls_ListMessages_sample)
  have l1: "list_resp completed_remote = Fetched (Response 200 (Some messages_body))"
    and l2: "list_resp no_answer_remote = Fetched (Response 200 (Some no_answer_body))"
    by (simp_all add: completed_remote_def no_answer_remote_def sample_remote_def)
  have c1: "js_prop messages_body ''code'' = JNum 0"
    and d1: "js_prop messages_body ''data'' = JArr [?a, ?q, ?b]"
    and o1: "\<forall>m\<in>set [?a, ?q, ?b]. \<not> nullish m"
    by (simp_all add: messages_body_def nullish_def)
  have c2: "js_prop no_answer_body ''code'' = JNum 0"
    and d2: "js_prop no_answer_body ''data'' = JArr [?q]"
    and o2: "\<forall>m\<in>set [?q]. \<not> nullish m"
    by (simp_all add: no_answer_body_def nullish_def)
  from reply_is_last_answer [OF r1 l1 c1 d1 o1]
  have 1: "fst (handler sample_request sample_env completed_remote) =
      Return (respond 200 (reply_body (JStr ''B'')))"
    by (simp add: assistant_answer_def)
  from reply_is_last_answer [OF r2 l2 c2 d2 o2]
  have 2: "fst (handler sample_request sample_env no_answer_remote) =
      Return (respond 200 (reply_body (JStr '''')))"
    by (simp add: assistant_answer_def)
  from r1 r2 1 2 show ?thesis by blast
qed

text \<open>
  C2. When the create call succeeds with the status \<open>in_progress\<close> and every retrieve call
  reports \<open>in_progress\<close> with code 0, the handler makes exactly 30 retrieve calls and no
  list call, and answers with status 500 and \<open>Chat did not complete (status: in_progress)\<close>.
  More generally, whenever the loop ends with a status that is not \<open>completed\<close> (and prints
  as \<open>t\<close>), the answer is status 500 with \<open>t\<close> in the error, and no list call is made.
\<close>

theorem polling_gives_up:
  assumes "valid_post req" and "configured environ" and "created W c v s"
  shows "(s = JStr ''in_progress'' \<and> printable c v \<and>
          (\<forall>k. reports (poll_resp W k) (JStr ''in_progress'')) \<longrightarrow>
            calls RetrieveChat (snd (handler req environ W)) = 30 \<and>
            calls ListMessages (snd (handler req environ W)) = 0 \<and>
            fst (handler req environ W) =
              Return (respond 500 (error_body
                (JStr ''Chat did not complete (status: in_progress)'')))) \<and>
         (\<forall>st ev t.
            poll_loop W (the (COZE_API_TOKEN environ)) c v 0 \<lparr>status = s, attempts = 0\<rparr> =
              (Next (), st, ev) \<and>
            status st \<noteq> JStr ''completed'' \<and> to_string (status st) = Next t \<longrightarrow>
              fst (handler req environ W) =
                Return (respond 500 (error_body
                  (JStr (''Chat did not complete (status: '' @ t @ '')'')))) \<and>
              calls ListMessages (snd (handler req environ W)) = 0)"
proof -
  let ?tok = "the (COZE_API_TOKEN environ)"
  let ?loop = "poll_loop W ?tok c v 0 \<lparr>status = s, attempts = 0\<rparr>"
  have exits: "fst (handler req environ W) =
        Return (respond 500 (error_body
          (JStr (''Chat did not complete (status: '' @ t @ '')'')))) \<and>
      calls ListMessages (snd (handler req environ W)) = 0 \<and>
      calls RetrieveChat (snd (handler req environ W)) = calls RetrieveChat ev"
    if "?loop = (Next (), st, ev)" and "status st \<noteq> JStr ''completed''"
      and "to_string (status st) = Next t" for st ev t
  proof -
    have "calls ListMessages ev = 0"
      using poll_loop_calls [of W ?tok c v 0 "\<lparr>status = s, attempts = 0\<rparr>"] that(1) by simp
    then show ?thesis
      by (simp add: handler_loop_exit [OF assms that(1)] after_loop_incomplete [OF that(2,3)])
  qed
  have "calls RetrieveChat (snd (handler req environ W)) = 30 \<and>
      calls ListMessages (snd (handler req environ W)) = 0 \<and>
      fst (handler req environ W) =
        Return (respond 500 (error_body (JStr ''Chat did not complete (status: in_progress)'')))"
    if s: "s = JStr ''in_progress''" and p: "printable c v"
      and polls: "\<And>k. reports (poll_resp W k) (JStr ''in_progress'')"
  proof -
    from p obtain q where q: "id_query c v = Next q" by (auto dest: printable_query)
    have "status \<lparr>status = s, attempts = 0\<rparr> = JStr ''in_progress''"
      and "attempts \<lparr>status = s, attempts = 0\<rparr> \<le> 30"
      using s by simp_all
    from poll_loop_all_in_progress [OF q polls this, of ?tok 0]
    obtain ev where loop: "?loop = (Next (), \<lparr>status = s, attempts = 30\<rparr>, ev)"
      and n: "calls RetrieveChat ev = 30"
      by (cases ?loop) auto
    from exits [OF loop, of "''in_progress''"] s n show ?thesis by simp
  qed
  with exits show ?thesis by blast
qed

theorem polling_gives_up_witness:
  "valid_post sample_request \<and> configured sample_env \<and>
   created in_progress_remote (JStr ''c1'') (JStr ''v1'') (JStr ''in_progress'') \<and>
   printable (JStr ''c1'') (JStr ''v1'') \<and>
   reports (poll_resp in_progress_remote 29) (JStr ''in_progress'') \<and>
   calls RetrieveChat (snd (handler sample_request sample_env in_progress_remote)) = 30 \<and>
   calls ListMessages (snd (handler sample_request sample_env in_progress_remote)) = 0 \<and>
   fst (handler sample_request sample_env in_progress_remote) =
     Return (respond 500 (error_body (JStr ''Chat did not complete (status: in_progress)''))) \<and>
   created failed_remote (JStr ''c1'') (JStr ''v1'') (JStr ''failed'') \<and>
   poll_loop failed_remote ''pat_token'' (JStr ''c1'') (JStr ''v1'') 0
       \<lparr>status = JStr ''failed'', attempts = 0\<rparr> =
     (Next (), \<lparr>status = JStr ''failed'', attempts = 0\<rparr>, []) \<and>
   to_string (JStr ''failed'') = Next ''failed'' \<and>
   fst (handler sample_request sample_env failed_remote) =
     Return (respond 500 (error_body (JStr ''Chat did not complete (status: failed)''))) \<and>
   calls ListMessages (snd (handler sample_request sample_env failed_remote)) = 0 \<and>
   created number_status_remote (JStr ''c1'') (JStr ''v1'') (JNum 1000000000000000000000) \<and>
   to_string (JNum 1000000000000000000000) = Next ''1e+21'' \<and>
   fst (handler sample_request sample_env number_status_remote) =
     Return (respond 500 (error_body (JStr ''Chat did not complete (status: 1e+21)''))) \<and>
   calls ListMessages (snd (handler sample_request sample_env number_status_remote)) = 0"
proof -
  have cr: "created in_progress_remote (JStr ''c1'') (JStr ''v1'') (JStr ''in_progress'')"
    unfolding in_progress_remote_def by (rule created_sample)
  have polls: "\<forall>k. reports (poll_resp in_progress_remote k) (JStr ''in_progress'')"
    by (simp add: in_progress_remote_def sample_remote_def chat_body_def nullish_def)
  note run = polling_gives_up [OF valid_sample_request configured_sample_env cr, THEN conjunct1]
  from run printable_sample polls
  have 1: "calls RetrieveChat (snd (handler sample_request sample_env in_progress_remote)) = 30 \<and>
    calls ListMessages (snd (handler sample_request sample_env in_progress_remote)) = 0 \<and>
    fst (handler sample_request sample_env in_progress_remote) =
      Return (respond 500 (error_body (JStr ''Chat did not complete (status: in_progress)'')))"
    by blast
  have cf: "created failed_remote (JStr ''c1'') (JStr ''v1'') (JStr ''failed'')"
    unfolding failed_remote_def by (rule created_sample)
  have tok: "the (COZE_API_TOKEN sample_env) = ''pat_token''"
    by (simp add: sample_env_def)
  have loop: "poll_loop failed_remote ''pat_token'' (JStr ''c1'') (JStr ''v1'') 0
       \<lparr>status = JStr ''failed'', attempts = 0\<rparr> =
     (Next (), \<lparr>status = JStr ''failed'', attempts = 0\<rparr>, [])"
    by (simp add: poll_loop_exit)
  have ts: "to_string (JStr ''failed'') = Next ''failed''" by simp
  note exit = polling_gives_up [OF valid_sample_request configured_sample_env cf, THEN conjunct2,
      unfolded tok, rule_format, of "\<lparr>status = JStr ''failed'', attempts = 0\<rparr>" "[]" "''failed''"]
  from exit loop
  have 2: "fst (handler sample_request sample_env failed_remote) =
      Return (respond 500 (error_body (JStr ''Chat did not complete (status: failed)''))) \<and>
    calls ListMessages (snd (handler sample_request sample_env failed_remote)) = 0"
    by simp
  have loop_n: "poll_loop number_status_remote ''pat_token'' (JStr ''c1'') (JStr ''v1'') 0
       \<lparr>status = JNum 1000000000000000000000, attempts = 0\<rparr> =
     (Next (), \<lparr>status = JNum 1000000000000000000000, attempts = 0\<rparr>, [])"
    by (simp add: poll_loop_exit)
  note exit_n = polling_gives_up [OF valid_sample_request configured_sample_env
      created_number_status, THEN conjunct2, unfolded tok, rule_format,
      of "\<lparr>status = JNum 1000000000000000000000, attempts = 0\<rparr>" "[]" "''1e+21''"]
  from exit_n loop_n
  have 3: "fst (handler sample_request sample_env number_status_remote) =
      Return (respond 500 (error_body (JStr ''Chat did not complete (status: 1e+21)''))) \<and>
    calls ListMessages (snd (handler sample_request sample_env number_status_remote)) = 0"
    by (simp add: to_string_number_status del: to_string.simps)
  from valid_sample_request configured_sample_env cr printable_sample polls 1 cf loop ts 2
    created_number_status to_string_number_status 3
  show ?thesis
    by blast
qed

text \<open>
  C3, as amended. When the create call succeeds with the status \<open>in_progress\<close> and the
  retrieve calls report \<open>in_progress\<close>, \<open>in_progress\<close>, \<open>completed\<close> with code 0, the handler
  makes exactly 3 retrieve calls, one for each report, and then the list call.
\<close>

theorem three_reports_three_polls:
  assumes "valid_post req" and "configured environ"
    and "created W c v (JStr ''in_progress'')" and "printable c v"
    and "reports (poll_resp W 0) (JStr ''in_progress'')"
    and "reports (poll_resp W 1) (JStr ''in_progress'')"
    and "reports (poll_resp W 2) (JStr ''completed'')"
  shows "calls RetrieveChat (snd (handler req environ W)) = 3 \<and>
         calls ListMessages (snd (handler req environ W)) = 1"
proof -
  let ?tok = "the (COZE_API_TOKEN environ)"
  from assms(4) obtain q where q: "id_query c v = Next q" by (auto dest: printable_query)
  let ?s = "JStr ''in_progress''" and ?done = "\<lparr>status = JStr ''completed'', attempts = 3\<rparr>"
  have l3: "poll_loop W ?tok c v 3 ?done = (Next (), ?done, [])"
    by (simp add: poll_loop_exit)
  have "\<exists>ev. poll_loop W ?tok c v 2 \<lparr>status = ?s, attempts = 2\<rparr> = (Next (), ?done, ev) \<and>
      calls RetrieveChat ev = Suc (calls RetrieveChat [])"
    by (rule poll_loop_reports_counts [OF q assms(7) _ _ l3]) simp_all
  then obtain ev2 where l2: "poll_loop W ?tok c v 2 \<lparr>status = ?s, attempts = 2\<rparr> = (Next (), ?done, ev2)"
    and n2: "calls RetrieveChat ev2 = 1"
    by auto
  have "\<exists>ev. poll_loop W ?tok c v 1 \<lparr>status = ?s, attempts = 1\<rparr> = (Next (), ?done, ev) \<and>
      calls RetrieveChat ev = Suc (calls RetrieveChat ev2)"
    by (rule poll_loop_reports_counts [OF q assms(6) _ _ l2]) simp_all
  then obtain ev1 where l1: "poll_loop W ?tok c v 1 \<lparr>status = ?s, attempts = 1\<rparr> = (Next (), ?done, ev1)"
    and n1: "calls RetrieveChat ev1 = 2"
    using n2 by auto
  have "\<exists>ev. poll_loop W ?tok c v 0 \<lparr>status = ?s, attempts = 0\<rparr> = (Next (), ?done, ev) \<and>
      calls RetrieveChat ev = Suc (calls RetrieveChat ev1)"
    by (rule poll_loop_reports_counts [OF q assms(5) _ _ l1]) simp_all
  then obtain ev where loop: "poll_loop W ?tok c v 0 \<lparr>status = ?s, attempts = 0\<rparr> = (Next (), ?done, ev)"
    and n: "calls RetrieveChat ev = 3"
    using n1 by auto
  have m: "calls ListMessages ev = 0"
    using poll_loop_calls [of W ?tok c v 0 "\<lparr>status = JStr ''in_progress'', attempts = 0\<rparr>"] loop
    by simp
  show ?thesis
    by (simp add: handler_loop_exit [OF assms(1-3) loop] n m after_loop_completed [OF q])
qed

theorem three_reports_three_polls_witness:
  "valid_post sample_request \<and> configured sample_env \<and>
   created three_polls_remote (JStr ''c1'') (JStr ''v1'') (JStr ''in_progress'') \<and>
   printable (JStr ''c1'') (JStr ''v1'') \<and>
   reports (poll_resp three_polls_remote 0) (JStr ''in_progress'') \<and>
   reports (poll_resp three_polls_remote 1) (JStr ''in_progress'') \<and>
   reports (poll_resp three_polls_remote 2) (JStr ''completed'') \<and>
   calls RetrieveChat (snd (handler sample_request sample_env three_polls_remote)) = 3 \<and>
   calls ListMessages (snd (handler sample_request sample_env three_polls_remote)) = 1"
proof -
  have cr: "created three_polls_remote (JStr ''c1'') (JStr ''v1'') (JStr ''in_progress'')"
    unfolding three_polls_remote_def by (rule created_sample)
  have p0: "reports (poll_resp three_polls_remote 0) (JStr ''in_progress'')"
    and p1: "reports (poll_resp three_polls_remote 1) (JStr ''in_progress'')"
    and p2: "reports (poll_resp three_polls_remote 2) (JStr ''completed'')"
    by (simp_all add: three_polls_remote_def sample_remote_def chat_body_def nullish_def)
  from three_reports_three_polls [OF valid_sample_request configured_sample_env cr
      printable_sample p0 p1 p2]
  show ?thesis
    using valid_sample_request configured_sample_env cr printable_sample p0 p1 p2 by blast
qed

text \<open>
  As first stated, with exactly 2 retrieve calls, the property fails: the third report can
  only be seen by a third call.
\<close>

theorem three_reports_not_two_polls:
  "created three_polls_remote (JStr ''c1'') (JStr ''v1'') (JStr ''in_progress'') \<and>
   reports (poll_resp three_polls_remote 0) (JStr ''in_progress'') \<and>
   reports (poll_resp three_polls_remote 1) (JStr ''in_progress'') \<and>
   reports (poll_resp three_polls_remote 2) (JStr ''completed'') \<and>
   calls RetrieveChat (snd (handler sample_request sample_env three_polls_remote)) = 3 \<and>
   calls RetrieveChat (snd (handler sample_request sample_env three_polls_remote)) \<noteq> 2"
  by code_simp

text \<open>
  C4, as amended. A POST request is answered with status 400 exactly when its \<open>message\<close> is
  falsy (missing, \<open>null\<close>, \<open>false\<close>, \<open>0\<close> or the empty string), and then with the error
  \<open>Missing "message" in request body\<close> and with no event at all.
\<close>

theorem missing_message:
  assumes "req_method req = ''POST''"
  shows "((\<exists>b. fst (handler req environ W) = Return (respond 400 b)) \<longleftrightarrow>
            \<not> js_truthy (message_of req)) \<and>
         (\<not> js_truthy (message_of req) \<longrightarrow>
            handler req environ W =
              (Return (respond 400 (error_body (JStr ''Missing \"message\" in request body''))), []))"
proof -
  have falsy: "handler req environ W =
      (Return (respond 400 (error_body (JStr ''Missing \"message\" in request body''))), [])"
    if "\<not> js_truthy (message_of req)"
    using that by (simp add: handler_post [OF assms])
  have truthy: "fst (handler req environ W) \<noteq> Return (respond 400 b)"
    if t: "js_truthy (message_of req)" for b
  proof (cases "configured environ")
    case False
    with t show ?thesis by (simp add: handler_post [OF assms] respond_def)
  next
    case True
    from t assms have "valid_post req" by (simp add: valid_post_def)
    from handler_run_status [OF this True, of W "respond 400 b"]
    show ?thesis by (auto simp: respond_def)
  qed
  from falsy truthy show ?thesis by auto
qed

theorem missing_message_witness:
  "req_method empty_request = ''POST'' \<and> \<not> js_truthy (message_of empty_request) \<and>
   handler empty_request sample_env completed_remote =
     (Return (respond 400 (error_body (JStr ''Missing \"message\" in request body''))), []) \<and>
   req_method sample_request = ''POST'' \<and> js_truthy (message_of sample_request) \<and>
   fst (handler sample_request sample_env completed_remote) \<noteq>
     Return (respond 400 (error_body (JStr ''Missing \"message\" in request body'')))"
proof -
  have e: "req_method empty_request = ''POST''" and f: "\<not> js_truthy (message_of empty_request)"
    by (simp_all add: empty_request_def message_of_def js_or_def)
  have s: "req_method sample_request = ''POST''" and t: "js_truthy (message_of sample_request)"
    by (simp_all add: sample_request_def message_of_def js_or_def)
  from missing_message [OF e, of sample_env completed_remote] f
  have 1: "handler empty_request sample_env completed_remote =
     (Return (respond 400 (error_body (JStr ''Missing \"message\" in request body''))), [])"
    by blast
  from missing_message [OF s, of sample_env completed_remote] t
  have 2: "fst (handler sample_request sample_env completed_remote) \<noteq>
     Return (respond 400 (error_body (JStr ''Missing \"message\" in request body'')))"
    by blast
  from e f s t 1 2 show ?thesis by blast
qed

text \<open>
  As first stated, with every \<open>message\<close> that is not a non-empty string rejected, the property
  fails: the number 42 is truthy, passes line 14 and is relayed.
\<close>

theorem number_message_accepted:
  "message_of number_request = JNum 42 \<and>
   fst (handler number_request sample_env completed_remote) =
     Return (respond 200 (reply_body (JStr ''B''))) \<and>
   outbound (snd (handler number_request sample_env completed_remote)) = 2"
  by code_simp

text \<open>
  C5. A valid POST request with the configuration present, whose create call is answered by
  a body with a code other than 0, is answered with status 500 and the remote message, or
  the default \<open>Failed to start Coze chat\<close> when the remote message is missing (or falsy, as
  \<open>||\<close> has it). The create call is the only outbound call.
\<close>

theorem create_failure:
  assumes "valid_post req" and "configured environ"
    and "create_resp W = Fetched (Response h (Some d))"
    and "\<not> nullish d" and "js_prop d ''code'' \<noteq> JNum 0"
  shows "fst (handler req environ W) =
           Return (respond 500 (error_body
             (if js_truthy (js_prop d ''msg'') then js_prop d ''msg''
              else JStr ''Failed to start Coze chat''))) \<and>
         outbound (snd (handler req environ W)) = 1 \<and>
         calls CreateChat (snd (handler req environ W)) = 1 \<and>
         calls RetrieveChat (snd (handler req environ W)) = 0 \<and>
         calls ListMessages (snd (handler req environ W)) = 0"
proof -
  let ?tok = "the (COZE_API_TOKEN environ)" and ?bid = "the (COZE_BOT_ID environ)"
  let ?r = "respond 500 (error_body (js_or (js_prop d ''msg'') (JStr ''Failed to start Coze chat'')))"
  have "fst (create_chat ?tok ?bid (message_of req) W) = Return ?r"
    using assms(3-5) by (simp add: create_chat_def create_result_error)
  then have "try_block ?tok ?bid (message_of req) W =
      (Return ?r, snd (create_chat ?tok ?bid (message_of req) W))"
    by (rule try_block_Return)
  then show ?thesis
    by (simp add: handler_run [OF assms(1,2)] js_or_def)
qed

theorem create_failure_witness:
  "valid_post sample_request \<and> configured sample_env \<and>
   \<not> nullish failure_body \<and> js_prop failure_body ''code'' \<noteq> JNum 0 \<and>
   fst (handler sample_request sample_env
          (sample_remote 200 failure_body (\<lambda>k. chat_body ''completed'') messages_body)) =
     Return (respond 500 (error_body (JStr ''authentication is invalid''))) \<and>
   outbound (snd (handler sample_request sample_env
          (sample_remote 200 failure_body (\<lambda>k. chat_body ''completed'') messages_body))) = 1"
proof -
  have v: "valid_post sample_request"
    by (simp add: valid_post_def sample_request_def message_of_def js_or_def)
  have c: "configured sample_env"
    by (simp add: configured_def sample_env_def)
  have r: "create_resp (sample_remote 200 failure_body (\<lambda>k. chat_body ''completed'') messages_body) =
      Fetched (Response 200 (Some failure_body))"
    by (simp add: sample_remote_def)
  have n: "\<not> nullish failure_body" by (simp add: failure_body_def nullish_def)
  have z: "js_prop failure_body ''code'' \<noteq> JNum 0" by (simp add: failure_body_def)
  have m: "js_prop failure_body ''msg'' = JStr ''authentication is invalid''"
    by (simp add: failure_body_def)
  from create_failure [OF v c r n z] v c n z show ?thesis by (simp add: m)
qed

text \<open>
  C6, as amended. Whenever an outbound call (create, retrieve or list) is answered by a body
  with a code other than 0, the handler answers with status 500 and the remote message, or
  the default message of that call. The HTTP transport status of a response is not looked
  at: the answer of the handler is the same for any two remote services whose responses
  parse to the same bodies.
\<close>

theorem nonzero_code_is_upstream_error:
  "(\<forall>k u a b h d.
      Fetch k u a b (Fetched (Response h (Some d))) \<in> set (snd (handler req environ W)) \<and>
      \<not> nullish d \<and> js_prop d ''code'' \<noteq> JNum 0 \<longrightarrow>
        fst (handler req environ W) =
          Return (respond 500 (error_body
            (if js_truthy (js_prop d ''msg'') then js_prop d ''msg''
             else JStr (default_error k))))) \<and>
   (\<forall>W'.
      await_json (create_resp W') = await_json (create_resp W) \<and>
      (\<forall>k. await_json (poll_resp W' k) = await_json (poll_resp W k)) \<and>
      await_json (list_resp W') = await_json (list_resp W) \<longrightarrow>
        fst (handler req environ W') = fst (handler req environ W))"
proof -
  have "fst (handler req environ W) =
      Return (respond 500 (error_body
        (if js_truthy (js_prop d ''msg'') then js_prop d ''msg'' else JStr (default_error k))))"
    if e: "Fetch k u a b (Fetched (Response h (Some d))) \<in> set (snd (handler req environ W))"
      and d: "\<not> nullish d" "js_prop d ''code'' \<noteq> JNum 0" for k u a b h d
  proof -
    from handler_fetch_valid [OF e] have v: "valid_post req" and c: "configured environ"
      by simp_all
    let ?t = "try_block (the (COZE_API_TOKEN environ)) (the (COZE_BOT_ID environ)) (message_of req) W"
    from e have "Fetch k u a b (Fetched (Response h (Some d))) \<in> set (snd ?t)"
      by (simp add: handler_run [OF v c] catch_block_fetch)
    from try_block_upstream [OF this d] show ?thesis
      by (cases ?t) (simp add: handler_run [OF v c] js_or_def)
  qed
  moreover have "fst (handler req environ W') = fst (handler req environ W)"
    if "await_json (create_resp W') = await_json (create_resp W)"
      and "\<And>k. await_json (poll_resp W' k) = await_json (poll_resp W k)"
      and "await_json (list_resp W') = await_json (list_resp W)" for W'
    using that by (rule handler_same)
  ultimately show ?thesis by blast
qed

theorem nonzero_code_is_upstream_error_witness:
  "Fetch RetrieveChat ''https://api.coze.com/v3/chat/retrieve?chat_id=c1&conversation_id=v1''
     ''Bearer pat_token'' None (Fetched (Response 200 (Some failure_body)))
     \<in> set (snd (handler sample_request sample_env poll_error_remote)) \<and>
   \<not> nullish failure_body \<and> js_prop failure_body ''code'' \<noteq> JNum 0 \<and>
   fst (handler sample_request sample_env poll_error_remote) =
     Return (respond 500 (error_body (JStr ''authentication is invalid''))) \<and>
   await_json (create_resp bad_gateway_remote) = await_json (create_resp completed_remote) \<and>
   await_json (list_resp bad_gateway_remote) = await_json (list_resp completed_remote) \<and>
   fst (handler sample_request sample_env bad_gateway_remote) =
     fst (handler sample_request sample_env completed_remote)"
proof -
  note t = nonzero_code_is_upstream_error [of sample_request sample_env poll_error_remote]
  note s = nonzero_code_is_upstream_error [of sample_request sample_env completed_remote]
  have n: "\<not> nullish failure_body" and z: "js_prop failure_body ''code'' \<noteq> JNum 0"
    and m: "js_prop failure_body ''msg'' = JStr ''authentication is invalid''"
    by (simp_all add: failure_body_def nullish_def)
  from t poll_error_event n z
  have "fst (handler sample_request sample_env poll_error_remote) =
      Return (respond 500 (error_body
        (if js_truthy (js_prop failure_body ''msg'') then js_prop failure_body ''msg''
         else JStr (default_error RetrieveChat))))"
    by blast
  then have 1: "fst (handler sample_request sample_env poll_error_remote) =
      Return (respond 500 (error_body (JStr ''authentication is invalid'')))"
    by (simp add: m)
  have c: "await_json (create_resp bad_gateway_remote) = await_json (create_resp completed_remote)"
    and p: "\<forall>k. await_json (poll_resp bad_gateway_remote k) = await_json (poll_resp completed_remote k)"
    and l: "await_json (list_resp bad_gateway_remote) = await_json (list_resp completed_remote)"
    by (simp_all add: bad_gateway_remote_def completed_remote_def sample_remote_def)
  from s c p l
  have 2: "fst (handler sample_request sample_env bad_gateway_remote) =
      fst (handler sample_request sample_env completed_remote)"
    by blast
  from poll_error_event n z 1 c l 2 show ?thesis by blast
qed

text \<open>
  As first stated, with a bad HTTP status treated as a failure, the property fails: responses
  with the status 502 and bodies with code 0 lead to the answer 200.
\<close>

theorem bad_http_status_is_success:
  "create_resp bad_gateway_remote = Fetched (Response 502 (Some (chat_body ''completed''))) \<and>
   list_resp bad_gateway_remote = Fetched (Response 502 (Some messages_body)) \<and>
   fst (handler sample_request sample_env bad_gateway_remote) =
     Return (respond 200 (reply_body (JStr ''B'')))"
  by code_simp

text \<open>
  C7, as amended. An iteration whose retrieve call is answered with code 0 increments the
  attempt counter, whatever status it reports. An iteration whose retrieve call is answered
  with another code returns the 500 response at once and leaves the counter as it was.
\<close>

theorem attempts_incremented_on_success:
  assumes "printable c v" and "poll_resp W k = Fetched (Response h (Some d))" and "\<not> nullish d"
  shows "(js_prop d ''code'' = JNum 0 \<and> \<not> nullish (js_prop d ''data'') \<longrightarrow>
            fst (poll_body W tok c v k st) = Next () \<and>
            fst (snd (poll_body W tok c v k st)) =
              \<lparr>status = js_prop (js_prop d ''data'') ''status'', attempts = attempts st + 1\<rparr>) \<and>
         (js_prop d ''code'' \<noteq> JNum 0 \<longrightarrow>
            fst (poll_body W tok c v k st) =
              Return (respond 500 (error_body
                (if js_truthy (js_prop d ''msg'') then js_prop d ''msg''
                 else JStr ''Error while polling Coze chat''))) \<and>
            fst (snd (poll_body W tok c v k st)) = st)"
proof -
  from assms(1) obtain q where q: "id_query c v = Next q" by (auto dest: printable_query)
  show ?thesis
    using assms(3)
    by (simp add: poll_body_def q assms(2) poll_result_ok poll_result_error js_or_def)
qed

theorem attempts_incremented_on_success_witness:
  "printable (JStr ''c1'') (JStr ''v1'') \<and>
   fst (snd (poll_body failed_remote ''pat_token'' (JStr ''c1'') (JStr ''v1'') 4
               \<lparr>status = JStr ''in_progress'', attempts = 4\<rparr>)) =
     \<lparr>status = JStr ''failed'', attempts = 5\<rparr> \<and>
   fst (snd (poll_body poll_error_remote ''pat_token'' (JStr ''c1'') (JStr ''v1'') 4
               \<lparr>status = JStr ''in_progress'', attempts = 4\<rparr>)) =
     \<lparr>status = JStr ''in_progress'', attempts = 4\<rparr>"
proof -
  have p1: "poll_resp failed_remote 4 = Fetched (Response 200 (Some (chat_body ''failed'')))"
    and p2: "poll_resp poll_error_remote 4 = Fetched (Response 200 (Some failure_body))"
    by (simp_all add: failed_remote_def poll_error_remote_def sample_remote_def)
  have n1: "\<not> nullish (chat_body ''failed'')" and n2: "\<not> nullish failure_body"
    by (simp_all add: chat_body_def failure_body_def nullish_def)
  from attempts_incremented_on_success [OF printable_sample p1 n1,
      where tok = "''pat_token''" and st = "\<lparr>status = JStr ''in_progress'', attempts = 4\<rparr>"]
  have 1: "fst (snd (poll_body failed_remote ''pat_token'' (JStr ''c1'') (JStr ''v1'') 4
               \<lparr>status = JStr ''in_progress'', attempts = 4\<rparr>)) =
     \<lparr>status = JStr ''failed'', attempts = 5\<rparr>"
    by (simp add: chat_body_def nullish_def)
  from attempts_incremented_on_success [OF printable_sample p2 n2,
      where tok = "''pat_token''" and st = "\<lparr>status = JStr ''in_progress'', attempts = 4\<rparr>"]
  have 2: "fst (snd (poll_body poll_error_remote ''pat_token'' (JStr ''c1'') (JStr ''v1'') 4
               \<lparr>status = JStr ''in_progress'', attempts = 4\<rparr>)) =
     \<lparr>status = JStr ''in_progress'', attempts = 4\<rparr>"
    by (simp add: failure_body_def)
  from printable_sample 1 2 show ?thesis by blast
qed

text \<open>
  As first stated, with the counter incremented on a remote error too, the property fails:
  line 68 returns before line 71.
\<close>

theorem remote_error_keeps_attempts:
  "fst (poll_body poll_error_remote ''pat_token'' (JStr ''c1'') (JStr ''v1'') 0
          \<lparr>status = JStr ''in_progress'', attempts = 0\<rparr>) =
     Return (respond 500 (error_body (JStr ''authentication is invalid''))) \<and>
   attempts (fst (snd (poll_body poll_error_remote ''pat_token'' (JStr ''c1'') (JStr ''v1'') 0
          \<lparr>status = JStr ''in_progress'', attempts = 0\<rparr>))) = 0"
  by code_simp

text \<open>
  C8. A request whose method is not \<open>POST\<close> is answered with status 405 and the error
  \<open>Method Not Allowed\<close>; no event happens, so no outbound call is made.
\<close>

theorem method_not_allowed:
  "req_method req \<noteq> ''POST'' \<Longrightarrow>
   handler req environ W =
     (Return \<lparr>http_status = 405, http_json = JObj [(''error'', JStr ''Method Not Allowed'')]\<rparr>, [])"
  by (simp add: handler_def respond_def error_body_def)

theorem method_not_allowed_witness:
  "req_method \<lparr>req_method = ''GET'', body = JUndefined\<rparr> \<noteq> ''POST'' \<and>
   handler \<lparr>req_method = ''GET'', body = JUndefined\<rparr> sample_env
       (sample_remote 200 (chat_body ''completed'') (\<lambda>k. chat_body ''completed'') messages_body) =
     (Return \<lparr>http_status = 405, http_json = JObj [(''error'', JStr ''Method Not Allowed'')]\<rparr>, [])"
  using method_not_allowed [of "\<lparr>req_method = ''GET'', body = JUndefined\<rparr>" sample_env
      "sample_remote 200 (chat_body ''completed'') (\<lambda>k. chat_body ''completed'') messages_body"]
  by simp

text \<open>
  C9. A valid POST request, with the API token or the bot identifier missing from the
  environment (not set, or empty), is answered with status 500 and the configuration error;
  no event happens, so no outbound call is made.
\<close>

theorem not_configured:
  assumes "valid_post req"
    and "\<not> env_truthy (COZE_API_TOKEN environ) \<or> \<not> env_truthy (COZE_BOT_ID environ)"
  shows "handler req environ W =
     (Return \<lparr>http_status = 500, http_json = JObj [(''error'',
        JStr ''Coze API token or Bot ID not configured in environment variables.'')]\<rparr>, [])"
  using assms by (auto simp: handler_post valid_post_def configured_def respond_def error_body_def)

theorem not_configured_witness:
  "valid_post sample_request \<and>
   \<not> env_truthy (COZE_API_TOKEN \<lparr>COZE_API_TOKEN = None, COZE_BOT_ID = Some ''bot42''\<rparr>) \<and>
   handler sample_request \<lparr>COZE_API_TOKEN = None, COZE_BOT_ID = Some ''bot42''\<rparr> completed_remote =
     (Return \<lparr>http_status = 500, http_json = JObj [(''error'',
        JStr ''Coze API token or Bot ID not configured in environment variables.'')]\<rparr>, [])"
  using not_configured [OF valid_sample_request,
      of "\<lparr>COZE_API_TOKEN = None, COZE_BOT_ID = Some ''bot42''\<rparr>" completed_remote]
  by (simp add: valid_sample_request)

text \<open>
  C10. When the create call succeeds with a status other than \<open>in_progress\<close>, the loop body
  never runs and no retrieve call is made. When that status is not \<open>completed\<close> either (and
  prints as \<open>t\<close>), the answer is status 500, \<open>Chat did not complete (status: t)\<close>, after the
  create call alone.
\<close>

theorem not_in_progress_skips_polling:
  assumes "valid_post req" and "configured environ"
    and "created W c v s" and "s \<noteq> JStr ''in_progress''"
  shows "poll_loop W tok c v 0 \<lparr>status = s, attempts = 0\<rparr> =
           (Next (), \<lparr>status = s, attempts = 0\<rparr>, []) \<and>
         calls RetrieveChat (snd (handler req environ W)) = 0 \<and>
         (s \<noteq> JStr ''completed'' \<and> to_string s = Next t \<longrightarrow>
            fst (handler req environ W) =
              Return (respond 500 (error_body
                (JStr (''Chat did not complete (status: '' @ t @ '')'')))) \<and>
            outbound (snd (handler req environ W)) = 1 \<and>
            calls ListMessages (snd (handler req environ W)) = 0)"
proof -
  let ?tok = "the (COZE_API_TOKEN environ)" and ?bid = "the (COZE_BOT_ID environ)"
  have loop: "poll_loop W x c v 0 \<lparr>status = s, attempts = 0\<rparr> =
      (Next (), \<lparr>status = s, attempts = 0\<rparr>, [])" for x
    using assms(4) by (simp add: poll_loop_exit)
  note run = handler_loop_exit [OF assms(1-3) loop, simplified]
  have "calls RetrieveChat (snd (handler req environ W)) = 0"
    by (simp add: run)
  moreover have "fst (handler req environ W) =
        Return (respond 500 (error_body
          (JStr (''Chat did not complete (status: '' @ t @ '')'')))) \<and>
      outbound (snd (handler req environ W)) = 1 \<and>
      calls ListMessages (snd (handler req environ W)) = 0"
    if "s \<noteq> JStr ''completed''" and "to_string s = Next t"
    unfolding run by (simp add: after_loop_incomplete [OF that])
  ultimately show ?thesis using loop by blast
qed

theorem not_in_progress_skips_polling_witness:
  "valid_post sample_request \<and> configured sample_env \<and>
   created failed_remote (JStr ''c1'') (JStr ''v1'') (JStr ''failed'') \<and>
   JStr ''failed'' \<noteq> JStr ''in_progress'' \<and> JStr ''failed'' \<noteq> JStr ''completed'' \<and>
   to_string (JStr ''failed'') = Next ''failed'' \<and>
   calls RetrieveChat (snd (handler sample_request sample_env failed_remote)) = 0 \<and>
   fst (handler sample_request sample_env failed_remote) =
     Return (respond 500 (error_body (JStr ''Chat did not complete (status: failed)''))) \<and>
   outbound (snd (handler sample_request sample_env failed_remote)) = 1 \<and>
   created number_status_remote (JStr ''c1'') (JStr ''v1'') (JNum 1000000000000000000000) \<and>
   to_string (JNum 1000000000000000000000) = Next ''1e+21'' \<and>
   calls RetrieveChat (snd (handler sample_request sample_env number_status_remote)) = 0 \<and>
   fst (handler sample_request sample_env number_status_remote) =
     Return (respond 500 (error_body (JStr ''Chat did not complete (status: 1e+21)''))) \<and>
   outbound (snd (handler sample_request sample_env number_status_remote)) = 1"
proof -
  have cr: "created failed_remote (JStr ''c1'') (JStr ''v1'') (JStr ''failed'')"
    unfolding failed_remote_def by (rule created_sample)
  have ne: "JStr ''failed'' \<noteq> JStr ''in_progress''" by simp
  from not_in_progress_skips_polling [OF valid_sample_request configured_sample_env cr ne,
      of "''pat_token''" "''failed''"]
  have 1: "calls RetrieveChat (snd (handler sample_request sample_env failed_remote)) = 0 \<and>
    fst (handler sample_request sample_env failed_remote) =
      Return (respond 500 (error_body (JStr ''Chat did not complete (status: failed)''))) \<and>
    outbound (snd (handler sample_request sample_env failed_remote)) = 1"
    by simp
  have nn: "JNum 1000000000000000000000 \<noteq> JStr ''in_progress''" by simp
  from not_in_progress_skips_polling [OF valid_sample_request configured_sample_env
      created_number_status nn, of "''pat_token''" "''1e+21''"]
  have 2: "calls RetrieveChat (snd (handler sample_request sample_env number_status_remote)) = 0 \<and>
    fst (handler sample_request sample_env number_status_remote) =
      Return (respond 500 (error_body (JStr ''Chat did not complete (status: 1e+21)''))) \<and>
    outbound (snd (handler sample_request sample_env number_status_remote)) = 1"
    by (simp add: to_string_number_status del: to_string.simps)
  from valid_sample_request configured_sample_env cr created_number_status
    to_string_number_status 1 2
  show ?thesis by simp
qed

end
